theory Spec2Isabelle
  imports Complex_Main "HOL-Library.AList"
begin

section \<open>The viewer app of compas\_view2 (src/compas\_view2/app/app.py)\<close>

text \<open>
  The module defines one class, \<^verbatim>\<open>App\<close>, on top of the Qt toolkit and of four
  collaborators of the package that live in other modules: \<^verbatim>\<open>Object\<close>,
  \<^verbatim>\<open>Selector\<close>, \<^verbatim>\<open>Controller\<close> and the two view classes. The embedding keeps
  the methods of \<^verbatim>\<open>App\<close> as functions on an explicit state, Python exceptions as
  values of the type \<open>error\<close>, and calls on the toolkit as traces.
\<close>

subsection \<open>Exceptions and values\<close>

datatype error =
    Exception string
  | NotImplementedError
  | AttributeError string
  | KeyError string
  | TypeError
  | OSError
  | OverflowError
  | UnsupportedGeometryKind
  | InvalidOption

text \<open>
  A Python object is named by its identity (\<^verbatim>\<open>id(obj)\<close>): the position at which it was
  allocated. The value a method returns is \<^verbatim>\<open>None\<close> or a reference.
\<close>

type_synonym ref = nat

datatype pyval = PyNone | PyRef ref

subsection \<open>The state of an app\<close>

datatype view_class = View120 | View330

text \<open>
  \<open>objs\<close> holds the wrappers \<^verbatim>\<open>Object.build\<close> has returned, in allocation order;
  \<open>view_objects\<close> is the dictionary \<^verbatim>\<open>self.view.objects\<close> in insertion order: each entry
  is the key under which the dictionary files a wrapper (a value of the type \<open>'key\<close>, see
  \<^verbatim>\<open>App.add\<close>) and the reference stored there; \<open>view_valid\<close> is what
  \<^verbatim>\<open>self.view.isValid()\<close> answers; \<open>init_calls\<close> lists the objects whose
  \<^verbatim>\<open>init()\<close> has been called, in call order.
\<close>

record ('o, 'sel, 'key) app =
  width :: int
  height :: int
  view_class :: view_class
  view_mode :: string
  view_objects :: "('key \<times> ref) list"
  view_valid :: bool
  selector :: 'sel
  has_menubar :: bool
  objs :: "'o list"
  init_calls :: "ref list"

subsection \<open>\<^verbatim>\<open>App.add\<close>\<close>

text \<open>
  \<^verbatim>\<open>
  def add(self, data, **kwargs):
      obj = Object.build(data, **kwargs)
      self.view.objects[obj] = obj
      self.selector.add(obj)
      if self.view.isValid():
          obj.init()
  \<close>
  \<^verbatim>\<open>Object.build\<close> and \<^verbatim>\<open>Selector.add\<close> are defined outside this module: they are
  the parameters \<open>build\<close> and \<open>sel_add\<close>, and either may raise. So are the
  \<^verbatim>\<open>__hash__\<close> and \<^verbatim>\<open>__eq__\<close> of the wrapper class, which decide under which key the
  statement \<^verbatim>\<open>self.view.objects[obj] = obj\<close> files the wrapper: the parameter \<open>key_of\<close>
  gives, for the wrapper \<open>ob\<close> at the identity \<open>obj\<close>, the key \<open>key_of obj ob\<close>, and the
  dictionary takes two wrappers for the same key exactly when their keys are equal. An
  assignment under a key that is present replaces the value stored there; under a new key
  it appends an entry. The method has no \<^verbatim>\<open>return\<close> statement, so a call that does not
  raise evaluates to \<^verbatim>\<open>None\<close>.
\<close>

text \<open>
  Modelled from the spec: whether \<^verbatim>\<open>Object.build\<close> constructs a new wrapper on each call
  is decided by the class \<^verbatim>\<open>Object\<close>, which is not in this module. The spec has every add
  request create a renderable object of its own ("created by GeometryAdapter.build on an
  add request"; the class docstring of \<^verbatim>\<open>App\<close>: "all added COMPAS objects are wrapped in a
  viewer object"): a call of \<open>build\<close> that returns has allocated one new wrapper, at the
  next free identity.
\<close>

definition add ::
  "('d \<Rightarrow> 'k \<Rightarrow> error + 'o) \<Rightarrow> (ref \<Rightarrow> 'o \<Rightarrow> 'key) \<Rightarrow> ('sel \<Rightarrow> ref \<Rightarrow> error + 'sel) \<Rightarrow>
   ('o, 'sel, 'key) app \<Rightarrow> 'd \<Rightarrow> 'k \<Rightarrow> (error + pyval) \<times> ('o, 'sel, 'key) app" where
  "add build key_of sel_add self data kwargs =
     (case build data kwargs of
        Inl e \<Rightarrow> (Inl e, self)
      | Inr ob \<Rightarrow>
          let obj = length (objs self);
              s1 = self\<lparr>objs := objs self @ [ob]\<rparr>;
              s2 = s1\<lparr>view_objects := AList.update (key_of obj ob) obj (view_objects s1)\<rparr>
          in (case sel_add (selector s2) obj of
                Inl e \<Rightarrow> (Inl e, s2)
              | Inr sel \<Rightarrow>
                  let s3 = s2\<lparr>selector := sel\<rparr>
                  in if view_valid s3
                     then (Inr PyNone, s3\<lparr>init_calls := init_calls s3 @ [obj]\<rparr>)
                     else (Inr PyNone, s3)))"

text \<open>A script is a sequence of \<^verbatim>\<open>viewer.add(data, **kwargs)\<close> statements; it stops at
  the first exception.\<close>

fun add_script ::
  "('d \<Rightarrow> 'k \<Rightarrow> error + 'o) \<Rightarrow> (ref \<Rightarrow> 'o \<Rightarrow> 'key) \<Rightarrow> ('sel \<Rightarrow> ref \<Rightarrow> error + 'sel) \<Rightarrow>
   ('o, 'sel, 'key) app \<Rightarrow> ('d \<times> 'k) list \<Rightarrow> error + ('o, 'sel, 'key) app" where
  "add_script build key_of sel_add self [] = Inr self"
| "add_script build key_of sel_add self ((data, kwargs) # rest) =
     (case add build key_of sel_add self data kwargs of
        (Inl e, _) \<Rightarrow> Inl e
      | (Inr _, self') \<Rightarrow> add_script build key_of sel_add self' rest)"

text \<open>Every reference the registry stores and every initialised object is an allocated
  object.\<close>

definition registry_ok :: "('o, 'sel, 'key) app \<Rightarrow> bool" where
  "registry_ok self =
     (list_all (\<lambda>r. r < length (objs self)) (map snd (view_objects self)) \<and>
      list_all (\<lambda>r. r < length (objs self)) (init_calls self))"

text \<open>Every entry of the registry stands under the key of the wrapper it stores, and no
  key occurs twice.\<close>

definition registry_keyed :: "(ref \<Rightarrow> 'o \<Rightarrow> 'key) \<Rightarrow> ('o, 'sel, 'key) app \<Rightarrow> bool" where
  "registry_keyed key_of self =
     (list_all (\<lambda>kr. fst kr = key_of (snd kr) (objs self ! snd kr)) (view_objects self) \<and>
      distinct (map fst (view_objects self)))"

text \<open>
  Modelled from the spec: the \<^verbatim>\<open>__hash__\<close> and \<^verbatim>\<open>__eq__\<close> of the class \<^verbatim>\<open>Object\<close> are
  not in this module. The spec gives a renderable object "a stable, process-unique handle,
  independent of any hashable/structural property of the underlying geometric data", and
  the class docstring of \<^verbatim>\<open>App\<close> has the dictionary map "the object's ID
  (\<^verbatim>\<open>id(object)\<close>) to the instance": wrappers at different identities never share a key.
\<close>

definition identity_keys :: "(ref \<Rightarrow> 'o \<Rightarrow> 'key) \<Rightarrow> bool" where
  "identity_keys key_of = (\<forall>r ob r' ob'. key_of r ob = key_of r' ob' \<longrightarrow> r = r')"

definition initialized :: "('o, 'sel, 'key) app \<Rightarrow> ref \<Rightarrow> bool" where
  "initialized self obj = (obj \<in> set (init_calls self))"

subsection \<open>The loaded configuration\<close>

text \<open>
  \<^verbatim>\<open>json.load\<close> returns \<^verbatim>\<open>None\<close>, a \<^verbatim>\<open>bool\<close>, a number, a \<^verbatim>\<open>str\<close>, a
  \<^verbatim>\<open>list\<close> or a \<^verbatim>\<open>dict\<close> with string keys. A dictionary is its list of items, in
  insertion order, each key once.
\<close>

datatype json =
    JNull
  | JBool bool
  | JNum real
  | JStr string
  | JArr "json list"
  | JObj "(string \<times> json) list"

text \<open>Python's truth value, as \<^verbatim>\<open>if not items\<close> and \<^verbatim>\<open>x or y\<close> test it.\<close>

fun truthy :: "json \<Rightarrow> bool" where
  "truthy JNull = False"
| "truthy (JBool b) = b"
| "truthy (JNum n) = (n \<noteq> 0)"
| "truthy (JStr s) = (s \<noteq> [])"
| "truthy (JArr xs) = (xs \<noteq> [])"
| "truthy (JObj d) = (d \<noteq> [])"

text \<open>\<^verbatim>\<open>item[key]\<close> with a string key: only a dictionary can be subscripted so.\<close>

fun subscript :: "json \<Rightarrow> string \<Rightarrow> error + json" where
  "subscript (JObj d) key =
     (case map_of d key of None \<Rightarrow> Inl (KeyError key) | Some v \<Rightarrow> Inr v)"
| "subscript _ key = Inl TypeError"

text \<open>\<^verbatim>\<open>item.get(key, None)\<close>: a method of dictionaries only.\<close>

fun dict_get :: "json \<Rightarrow> string \<Rightarrow> error + json" where
  "dict_get (JObj d) key =
     (case map_of d key of None \<Rightarrow> Inr JNull | Some v \<Rightarrow> Inr v)"
| "dict_get _ key = Inl (AttributeError ''get'')"

text \<open>\<^verbatim>\<open>key in item\<close>, used by the source on values it has subscripted with a string
  before, which are dictionaries.\<close>

fun has_key :: "json \<Rightarrow> string \<Rightarrow> bool" where
  "has_key (JObj d) key = (key \<in> set (map fst d))"
| "has_key _ key = False"

text \<open>What \<^verbatim>\<open>for x in v\<close> and \<^verbatim>\<open>*v\<close> run through: the elements of a list, the keys
  of a dictionary, the characters of a string; anything else is not iterable.\<close>

fun iterate :: "json \<Rightarrow> error + json list" where
  "iterate (JArr xs) = Inr xs"
| "iterate (JObj d) = Inr (map (\<lambda>kv. JStr (fst kv)) d)"
| "iterate (JStr s) = Inr (map (\<lambda>c. JStr [c]) s)"
| "iterate _ = Inl TypeError"

text \<open>\<^verbatim>\<open>**v\<close> accepts a mapping only.\<close>

fun mapping_of :: "json \<Rightarrow> error + (string \<times> json) list" where
  "mapping_of (JObj d) = Inr d"
| "mapping_of _ = Inl TypeError"

text \<open>\<^verbatim>\<open>getattr(obj, name)\<close> and \<^verbatim>\<open>obj.name\<close> on an object whose attributes are
  \<open>attrs\<close>: the names that resolve on it, each with whether its value is callable. The
  name must be a string, and a name that does not resolve raises.\<close>

fun getattr :: "(string \<times> bool) list \<Rightarrow> json \<Rightarrow> error + string \<times> bool" where
  "getattr attrs (JStr name) =
     (case map_of attrs name of
        None \<Rightarrow> Inl (AttributeError name)
      | Some callable \<Rightarrow> Inr (name, callable))"
| "getattr attrs _ = Inl TypeError"

text \<open>
  \<^verbatim>\<open>os.path.join(a, b)\<close> of \<^verbatim>\<open>posixpath\<close>: an absolute \<open>b\<close> replaces \<open>a\<close>; otherwise
  \<open>b\<close> is appended, after a separator unless \<open>a\<close> is empty or ends with one.
\<close>

definition path_join :: "string \<Rightarrow> string \<Rightarrow> string" where
  "path_join a b =
     (if b \<noteq> [] \<and> hd b = CHR ''/'' then b
      else if a = [] \<or> last a = CHR ''/'' then a @ b
      else a @ ''/'' @ b)"

text \<open>
  The conversion of a Python \<^verbatim>\<open>int\<close> to \<^verbatim>\<open>float\<close>, which \<^verbatim>\<open>0.5 * n\<close> performs on
  \<open>n\<close>: exact below \<open>2 ^ 53\<close>, otherwise rounded to 53 significant bits, a tie to the
  even neighbour, and \<^verbatim>\<open>OverflowError\<close> when the rounded value is beyond the largest
  double. \<open>bit_length\<close> is \<^verbatim>\<open>int.bit_length\<close>.
\<close>

fun bit_length :: "nat \<Rightarrow> nat" where
  "bit_length n = (if n = 0 then 0 else Suc (bit_length (n div 2)))"

declare bit_length.simps [simp del]

definition py_float :: "int \<Rightarrow> error + real" where
  "py_float n =
     (let m = nat \<bar>n\<bar>
      in if m < 2 ^ 53 then Inr (real_of_int n)
         else
           let shift = bit_length m - 53;
               q = m div 2 ^ shift;
               r = m mod 2 ^ shift;
               q' = (if 2 ^ shift < 2 * r \<or> (2 * r = 2 ^ shift \<and> odd q) then q + 1 else q);
               v = q' * 2 ^ shift
           in if 2 ^ 1024 \<le> v then Inl OverflowError
              else Inr (if n < 0 then - real v else real v))"

subsection \<open>Calls on the toolkit\<close>

datatype profile = NoProfile | CoreProfile | CompatibilityProfile

record surface_format =
  gl_version :: "nat \<times> nat"
  gl_profile :: profile

text \<open>A widget created by a call is named by the position of that call in the trace.\<close>

datatype widget = MenuBar | ToolBar | Menu nat

datatype callback =
    Partial string "json list" "(string \<times> json) list"
  | SelfAttr string

datatype ui_call =
    NewApplication
  | NewMainWindow
  | NewView view_class string
  | SetCentralWidget
  | WindowSetContentsMargins
  | NewController
  | NewSelector
  | StatusBar
  | StatusBarSetContentsMargins
  | ShowMessage string
  | WindowMenuBar
  | SetNativeMenuBar bool
  | MenuBarSetContentsMargins
  | AddSeparator widget
  | AddMenu widget json
  | NewActionGroup bool
  | AddAction widget "json option" json callback
  | SetCheckable nat bool
  | SetChecked nat json
  | GroupAddAction nat nat
  | AddToolBar string
  | SetMovable bool
  | SetObjectName string
  | SetIconSize nat nat
  | WindowResize int int
  | SetGeometry real real int int

subsection \<open>Module constants\<close>

text \<open>
  \<^verbatim>\<open>
  HERE = os.path.dirname(__file__)
  ICONS = os.path.join(HERE, '../icons')
  VERSIONS = {'120': (2, 1), '330': (3, 3)}
  \<close>
  \<open>HERE\<close>, the directory the module is loaded from, is a parameter.
\<close>

definition ICONS :: "string \<Rightarrow> string" where
  "ICONS HERE = path_join HERE ''../icons''"

definition VERSIONS :: "(string \<times> nat \<times> nat) list" where
  "VERSIONS = [(''120'', (2, 1)), (''330'', (3, 3))]"


subsection \<open>\<^verbatim>\<open>App.add_action\<close>\<close>

text \<open>
  \<^verbatim>\<open>
  def add_action(self, item, parent):
      text = item['text']
      action = getattr(self.controller, item['action'])
      args = item.get('args', None) or []
      kwargs = item.get('kwargs', None) or {}
      if 'icon' in item:
          icon = QtGui.QIcon(item['icon'])
          return parent.addAction(icon, text, partial(action, *args, **kwargs))
      return parent.addAction(text, partial(action, *args, **kwargs))
  \<close>
  \<open>controller\<close> lists the attributes of \<^verbatim>\<open>self.controller\<close> (the class \<^verbatim>\<open>Controller\<close> is
  defined outside this module), each with whether it is callable: \<^verbatim>\<open>partial\<close> raises
  \<^verbatim>\<open>TypeError\<close> on a first argument that is not. A function on the toolkit takes
  the trace so far and returns its result with the trace extended by the calls made before
  it returned or raised. The toolkit's own argument checks are not part of the model: a
  value is handed to it as it is.
\<close>

definition add_action ::
  "(string \<times> bool) list \<Rightarrow> json \<Rightarrow> widget \<Rightarrow> ui_call list \<Rightarrow> (error + nat) \<times> ui_call list" where
  "add_action controller item parent tr =
     (case subscript item ''text'' of
        Inl e \<Rightarrow> (Inl e, tr)
      | Inr text \<Rightarrow>
     (case subscript item ''action'' of
        Inl e \<Rightarrow> (Inl e, tr)
      | Inr name \<Rightarrow>
     (case getattr controller name of
        Inl e \<Rightarrow> (Inl e, tr)
      | Inr action \<Rightarrow>
     (case dict_get item ''args'' of
        Inl e \<Rightarrow> (Inl e, tr)
      | Inr a \<Rightarrow>
     (case dict_get item ''kwargs'' of
        Inl e \<Rightarrow> (Inl e, tr)
      | Inr k \<Rightarrow>
          let args = (if truthy a then a else JArr []);
              kwargs = (if truthy k then k else JObj []);
              icon = (if has_key item ''icon''
                      then (case subscript item ''icon'' of Inl _ \<Rightarrow> None | Inr i \<Rightarrow> Some i)
                      else None)
          in (case iterate args of
                Inl e \<Rightarrow> (Inl e, tr)
              | Inr positional \<Rightarrow>
             (case mapping_of kwargs of
                Inl e \<Rightarrow> (Inl e, tr)
              | Inr keywords \<Rightarrow>
                  if \<not> snd action then (Inl TypeError, tr)
                  else
                    (Inr (length tr),
                     tr @ [AddAction parent icon text
                             (Partial (fst action) positional keywords)]))))))))"

subsection \<open>\<^verbatim>\<open>App.add_menubar_items\<close>\<close>

text \<open>The inner loop of the \<^verbatim>\<open>radio\<close> branch, over the children of the group \<open>radio\<close>:
  \<^verbatim>\<open>
  for item in item['items']:
      action = self.add_action(item, parent)
      action.setCheckable(True)
      action.setChecked(item['checked'])
      radio.addAction(action)
  \<close>\<close>

fun radio_items ::
  "(string \<times> bool) list \<Rightarrow> json list \<Rightarrow> widget \<Rightarrow> nat \<Rightarrow> ui_call list \<Rightarrow>
   (error + unit) \<times> ui_call list" where
  "radio_items controller [] parent radio tr = (Inr (), tr)"
| "radio_items controller (item # rest) parent radio tr =
     (case add_action controller item parent tr of
        (Inl e, tr1) \<Rightarrow> (Inl e, tr1)
      | (Inr action, tr1) \<Rightarrow>
          let tr2 = tr1 @ [SetCheckable action True]
          in (case subscript item ''checked'' of
                Inl e \<Rightarrow> (Inl e, tr2)
              | Inr checked \<Rightarrow>
                  radio_items controller rest parent radio
                    (tr2 @ [SetChecked action checked, GroupAddAction radio action])))"

lemma subscript_smaller: "subscript item key = Inr v \<Longrightarrow> size v < size item"
proof (cases item)
  case (JObj d)
  assume "subscript item key = Inr v"
  with JObj have "(key, v) \<in> set d"
    by (auto split: option.splits dest: map_of_SomeD)
  then have "size v < Suc (size_list (size_prod (\<lambda>_. 0) size) d)"
    by (induction d) auto
  with JObj show ?thesis by simp
qed simp_all

text \<open>
  \<^verbatim>\<open>
  def add_menubar_items(self, items, parent):
      if not items:
          return
      for item in items:
          if item['type'] == 'separator':
              parent.addSeparator()
          elif item['type'] == 'menu':
              menu = parent.addMenu(item['text'])
              if 'items' in item:
                  self.add_menubar_items(item['items'], menu)
          elif item['type'] == 'radio':
              radio = QtWidgets.QActionGroup(self.window, exclusive=True)
              for item in item['items']:
                  ...
          elif item['type'] == 'action':
              self.add_action(item, parent)
          else:
              raise NotImplementedError
  \<close>
  \<open>add_menubar_loop\<close> is the \<^verbatim>\<open>for\<close> loop over a list. A truthy \<^verbatim>\<open>items\<close> that is
  not a list raises \<^verbatim>\<open>TypeError\<close>: a number or \<^verbatim>\<open>True\<close> is not iterable, and the
  loop over a non-empty string or dictionary binds \<^verbatim>\<open>item\<close> to a string, on which
  \<^verbatim>\<open>item['type']\<close> raises at once.
\<close>

function add_menubar_items ::
  "(string \<times> bool) list \<Rightarrow> json \<Rightarrow> widget \<Rightarrow> ui_call list \<Rightarrow> (error + unit) \<times> ui_call list"
and add_menubar_loop ::
  "(string \<times> bool) list \<Rightarrow> json list \<Rightarrow> widget \<Rightarrow> ui_call list \<Rightarrow> (error + unit) \<times> ui_call list"
where
  "add_menubar_items controller items parent tr =
     (if \<not> truthy items then (Inr (), tr)
      else (case items of
              JArr xs \<Rightarrow> add_menubar_loop controller xs parent tr
            | _ \<Rightarrow> (Inl TypeError, tr)))"
| "add_menubar_loop controller [] parent tr = (Inr (), tr)"
| "add_menubar_loop controller (item # rest) parent tr =
     (case subscript item ''type'' of
        Inl e \<Rightarrow> (Inl e, tr)
      | Inr t \<Rightarrow>
          if t = JStr ''separator'' then
            add_menubar_loop controller rest parent (tr @ [AddSeparator parent])
          else if t = JStr ''menu'' then
            (case subscript item ''text'' of
               Inl e \<Rightarrow> (Inl e, tr)
             | Inr text \<Rightarrow>
                 if has_key item ''items'' then
                   (case subscript item ''items'' of
                      Inl e \<Rightarrow> (Inl e, tr @ [AddMenu parent text])
                    | Inr sub \<Rightarrow>
                        (case add_menubar_items controller sub (Menu (length tr))
                                (tr @ [AddMenu parent text]) of
                           (Inl e, tr2) \<Rightarrow> (Inl e, tr2)
                         | (Inr _, tr2) \<Rightarrow> add_menubar_loop controller rest parent tr2))
                 else add_menubar_loop controller rest parent (tr @ [AddMenu parent text]))
          else if t = JStr ''radio'' then
            (case subscript item ''items'' of
               Inl e \<Rightarrow> (Inl e, tr @ [NewActionGroup True])
             | Inr its \<Rightarrow>
                 (case iterate its of
                    Inl e \<Rightarrow> (Inl e, tr @ [NewActionGroup True])
                  | Inr children \<Rightarrow>
                      (case radio_items controller children parent (length tr)
                              (tr @ [NewActionGroup True]) of
                         (Inl e, tr2) \<Rightarrow> (Inl e, tr2)
                       | (Inr _, tr2) \<Rightarrow> add_menubar_loop controller rest parent tr2)))
          else if t = JStr ''action'' then
            (case add_action controller item parent tr of
               (Inl e, tr1) \<Rightarrow> (Inl e, tr1)
             | (Inr _, tr1) \<Rightarrow> add_menubar_loop controller rest parent tr1)
          else (Inl NotImplementedError, tr))"
  by pat_completeness auto
termination
proof (relation "measure (\<lambda>x. case x of
          Inl (_, items, _, _) \<Rightarrow> size items
        | Inr (_, xs, _, _) \<Rightarrow> size_list size xs)")
qed (auto dest: subscript_smaller)


subsection \<open>Status bar, menu bar, tool bar\<close>

text \<open>
  \<^verbatim>\<open>
  def init_statusbar(self):
      self.statusbar = self.window.statusBar()
      self.statusbar.setContentsMargins(0, 0, 0, 0)
      self.statusbar.showMessage('Ready')
  \<close>\<close>

definition init_statusbar :: "ui_call list \<Rightarrow> ui_call list" where
  "init_statusbar tr = tr @ [StatusBar, StatusBarSetContentsMargins, ShowMessage ''Ready'']"

text \<open>
  \<^verbatim>\<open>
  def init_menubar(self, items):
      if not items:
          return
      self.menubar = self.window.menuBar()
      self.menubar.setNativeMenuBar(False)
      self.menubar.setContentsMargins(0, 0, 0, 0)
      self.add_menubar_items(items, self.menubar)
  \<close>\<close>

definition init_menubar ::
  "(string \<times> bool) list \<Rightarrow> json \<Rightarrow> ui_call list \<Rightarrow> (error + unit) \<times> ui_call list" where
  "init_menubar controller items tr =
     (if \<not> truthy items then (Inr (), tr)
      else add_menubar_items controller items MenuBar
             (tr @ [WindowMenuBar, SetNativeMenuBar False, MenuBarSetContentsMargins]))"

text \<open>
  The names the class body binds, and the attributes \<^verbatim>\<open>__init__\<close> has set on the
  instance before it calls \<^verbatim>\<open>init_toolbar\<close> (\<^verbatim>\<open>menubar\<close> only when
  \<^verbatim>\<open>init_menubar\<close> went past its guard). The attributes every Python object inherits
  from \<^verbatim>\<open>object\<close> are left out: the class looks up \<^verbatim>\<open>undo\<close> and \<^verbatim>\<open>redo\<close> only.
  The methods are callable; the instance attributes hold numbers and toolkit objects.
\<close>

definition App_methods :: "string list" where
  "App_methods =
     [''__init__'', ''resize'', ''add'', ''show'', ''init_statusbar'', ''init_menubar'',
      ''init_toolbar'', ''add_menubar_items'', ''add_toolbar_items'', ''add_action'']"

definition App_attributes :: "bool \<Rightarrow> (string \<times> bool) list" where
  "App_attributes with_menubar =
     map (\<lambda>name. (name, True)) App_methods @
     map (\<lambda>name. (name, False))
       ([''width'', ''height'', ''window'', ''view'', ''controller'', ''_app'', ''selector'',
         ''statusbar''] @
        (if with_menubar then [''menubar''] else []))"

text \<open>
  \<^verbatim>\<open>
  def init_toolbar(self, items):
      if not items:
          return
      toolbar = self.window.addToolBar('Tools')
      toolbar.setMovable(False)
      toolbar.setObjectName('Tools')
      toolbar.setIconSize(QtCore.QSize(24, 24))
      undotool = toolbar.addAction(QtGui.QIcon(os.path.join(ICONS, 'undo-solid.svg')), 'Undo', self.undo)
      redotool = toolbar.addAction(QtGui.QIcon(os.path.join(ICONS, 'redo-solid.svg')), 'Redo', self.redo)
  \<close>
  \<open>attrs\<close> lists the attributes of \<^verbatim>\<open>self\<close>. The arguments of a call are evaluated
  before the call: \<^verbatim>\<open>self.undo\<close> is looked up before the first \<^verbatim>\<open>addAction\<close>.
\<close>

definition init_toolbar ::
  "string \<Rightarrow> (string \<times> bool) list \<Rightarrow> json \<Rightarrow> ui_call list \<Rightarrow>
   (error + unit) \<times> ui_call list" where
  "init_toolbar HERE attrs items tr =
     (if \<not> truthy items then (Inr (), tr)
      else
        let tr1 = tr @ [AddToolBar ''Tools'', SetMovable False, SetObjectName ''Tools'',
                        SetIconSize 24 24]
        in (case getattr attrs (JStr ''undo'') of
              Inl e \<Rightarrow> (Inl e, tr1)
            | Inr undo \<Rightarrow>
                let tr2 = tr1 @ [AddAction ToolBar
                                   (Some (JStr (path_join (ICONS HERE) ''undo-solid.svg'')))
                                   (JStr ''Undo'') (SelfAttr (fst undo))]
                in (case getattr attrs (JStr ''redo'') of
                      Inl e \<Rightarrow> (Inl e, tr2)
                    | Inr redo \<Rightarrow>
                        (Inr (),
                         tr2 @ [AddAction ToolBar
                                  (Some (JStr (path_join (ICONS HERE) ''redo-solid.svg'')))
                                  (JStr ''Redo'') (SelfAttr (fst redo))]))))"

subsection \<open>\<^verbatim>\<open>App.resize\<close>\<close>

text \<open>
  \<^verbatim>\<open>
  def resize(self, width, height):
      self.window.resize(width, height)
      desktop = self._app.desktop()
      rect = desktop.availableGeometry()
      x = 0.5 * (rect.width() - width)
      y = 0.5 * (rect.height() - height)
      self.window.setGeometry(x, y, width, height)
  \<close>
  \<open>desktop\<close> is the size of the available geometry. The product with the float
  \<^verbatim>\<open>0.5\<close> converts the difference to a float, which raises on an integer beyond the
  range of the doubles; halving the converted value is exact. As in \<^verbatim>\<open>add_action\<close>, the
  values are handed to the toolkit as they are.
\<close>

definition resize ::
  "int \<times> int \<Rightarrow> int \<Rightarrow> int \<Rightarrow> ui_call list \<Rightarrow> (error + unit) \<times> ui_call list" where
  "resize desktop w h tr =
     (let tr1 = tr @ [WindowResize w h]
      in (case py_float (fst desktop - w) of
            Inl e \<Rightarrow> (Inl e, tr1)
          | Inr fx \<Rightarrow>
         (case py_float (snd desktop - h) of
            Inl e \<Rightarrow> (Inl e, tr1)
          | Inr fy \<Rightarrow> (Inr (), tr1 @ [SetGeometry (fx / 2) (fy / 2) w h]))))"

subsection \<open>\<^verbatim>\<open>App.__init__\<close>\<close>

text \<open>
  What the constructor reads from outside the module: the directory the module is loaded
  from, whether a \<^verbatim>\<open>QCoreApplication\<close> instance exists, the desktop's available
  geometry, what opening and loading \<^verbatim>\<open>config.json\<close> gives (the file is not part of the
  sources at hand), the attributes of a \<^verbatim>\<open>Controller\<close>, and the state of a new
  \<^verbatim>\<open>Selector\<close>.
\<close>

record 'sel env =
  module_dir :: string
  qapp_running :: bool
  desktop_size :: "int \<times> int"
  loaded_config :: "error + json"
  controller_attrs :: "(string \<times> bool) list"
  new_selector :: 'sel

text \<open>
  The toolkit calls of the constructor between the surface format and the configuration:
  \<^verbatim>\<open>
  app = QtCore.QCoreApplication.instance()
  if app is None:
      app = QtWidgets.QApplication(sys.argv)
  app.references = set()
  self.width = width
  self.height = height
  self.window = QtWidgets.QMainWindow()
  self.view = View(self, mode=viewmode)
  self.window.setCentralWidget(self.view)
  self.window.setContentsMargins(0, 0, 0, 0)
  self.controller = Controller(self)
  self._app = app
  self._app.references.add(self.window)
  self.selector = Selector(self)
  self.init_statusbar()
  \<close>\<close>

definition window_setup :: "'sel env \<Rightarrow> view_class \<Rightarrow> string \<Rightarrow> ui_call list" where
  "window_setup env View viewmode =
     init_statusbar
       ((if qapp_running env then [] else [NewApplication]) @
        [NewMainWindow, NewView View viewmode, SetCentralWidget, WindowSetContentsMargins,
         NewController, NewSelector])"

text \<open>
  \<^verbatim>\<open>
  def __init__(self, version='120', width=800, height=500, viewmode='shaded'):
      if version not in VERSIONS:
          raise Exception("Only these versions are currently supported: {}".format(VERSIONS))
      glFormat = QtGui.QSurfaceFormat()
      glFormat.setVersion(* VERSIONS[version])
      if version == '330':
          View = View330
          glFormat.setProfile(QtGui.QSurfaceFormat.CoreProfile)
      elif version == '120':
          View = View120
          glFormat.setProfile(QtGui.QSurfaceFormat.CompatibilityProfile)
      else:
          raise NotImplementedError
      glFormat.setDefaultFormat(glFormat)
      QtGui.QSurfaceFormat.setDefaultFormat(glFormat)
      ...
      with open(CONFIG) as f:
          config = json.load(f)
          self.init_menubar(config.get("menubar"))
          self.init_toolbar(config.get("toolbar"))
      self.resize(width, height)
  \<close>
  The result is the exception or the constructed app, the surface formats installed as the
  toolkit's default (in call order) and the trace of the other toolkit calls.

  Modelled from the spec: the view classes are defined outside this module; a new view has
  an empty registry, and its rendering context is not valid before a first frame has been
  rendered.
\<close>

definition App_init ::
  "'sel env \<Rightarrow> string \<Rightarrow> int \<Rightarrow> int \<Rightarrow> string \<Rightarrow>
   (error + ('o, 'sel, 'key) app) \<times> surface_format list \<times> ui_call list" where
  "App_init env version w h viewmode =
     (case map_of VERSIONS version of
        None \<Rightarrow>
          (Inl (Exception ''Only these versions are currently supported: {'120': (2, 1), '330': (3, 3)}''), [], [])
      | Some v \<Rightarrow>
     (case (let glFormat = \<lparr>gl_version = v, gl_profile = NoProfile\<rparr>
            in if version = ''330''
               then Inr (View330, glFormat\<lparr>gl_profile := CoreProfile\<rparr>)
               else if version = ''120''
               then Inr (View120, glFormat\<lparr>gl_profile := CompatibilityProfile\<rparr>)
               else Inl NotImplementedError) of
        Inl e \<Rightarrow> (Inl e, [], [])
      | Inr (View, glFormat) \<Rightarrow>
          let fmts = [glFormat, glFormat];
              tr2 = window_setup env View viewmode
          in (case loaded_config env of
                Inl e \<Rightarrow> (Inl e, fmts, tr2)
              | Inr config \<Rightarrow>
             (case dict_get config ''menubar'' of
                Inl e \<Rightarrow> (Inl e, fmts, tr2)
              | Inr menubar \<Rightarrow>
             (case init_menubar (controller_attrs env) menubar tr2 of
                (Inl e, tr3) \<Rightarrow> (Inl e, fmts, tr3)
              | (Inr _, tr3) \<Rightarrow>
             (case dict_get config ''toolbar'' of
                Inl e \<Rightarrow> (Inl e, fmts, tr3)
              | Inr toolbar \<Rightarrow>
             (case init_toolbar (module_dir env) (App_attributes (truthy menubar)) toolbar tr3 of
                (Inl e, tr4) \<Rightarrow> (Inl e, fmts, tr4)
              | (Inr _, tr4) \<Rightarrow>
             (case resize (desktop_size env) w h tr4 of
                (Inl e, tr5) \<Rightarrow> (Inl e, fmts, tr5)
              | (Inr _, tr5) \<Rightarrow>
                  (Inr \<lparr>width = w, height = h, view_class = View, view_mode = viewmode,
                        view_objects = [], view_valid = False,
                        selector = new_selector env, has_menubar = truthy menubar,
                        objs = [], init_calls = []\<rparr>,
                   fmts, tr5)))))))))"

text \<open>What a constructor call came to, apart from the app it returned: the exception or
  normal completion, and the trace of its toolkit calls.\<close>

definition outcome ::
  "(error + ('o, 'sel, 'key) app) \<times> surface_format list \<times> ui_call list \<Rightarrow>
   (error + unit) \<times> ui_call list" where
  "outcome result =
     (case result of
        (Inl e, _, tr) \<Rightarrow> (Inl e, tr)
      | (Inr _, _, tr) \<Rightarrow> (Inr (), tr))"

subsection \<open>The inputs of scripts/v120\_on\_select.py\<close>

text \<open>
  A geometric input is a variant tag with its numeric data; an option is a keyword with
  its value.
  \<^verbatim>\<open>
  polygon = Polygon([[0, 0, 0], [1, 0, 0], [1, 1, 0]])
  obj = viewer.add(polygon, linecolor=(0, 0, 1))
  capsule = Capsule([[0, 0, 0], [0, 0, 1]], 0.3)
  obj = viewer.add(capsule, facecolor=(0, 0, 1))
  \<close>\<close>

datatype geometry = Geometry string "real list"

datatype option_value = RGB real real real | Flag bool | Number real

type_synonym wrapper = "geometry \<times> (string \<times> option_value) list"

definition polygon :: geometry where
  "polygon = Geometry ''Polygon'' [0, 0, 0, 1, 0, 0, 1, 1, 0]"

definition capsule :: geometry where
  "capsule = Geometry ''Capsule'' [0, 0, 0, 0, 0, 1, 3 / 10]"

text \<open>
  Modelled from the spec: \<^verbatim>\<open>Object.build\<close> is defined outside this module. It builds
  the wrapper of a supported geometric variant and fails with \<open>UnsupportedGeometryKind\<close>
  on any other; the recognised options are \<open>color\<close>, \<open>linecolor\<close>, \<open>facecolor\<close>,
  \<open>show_vertices\<close>, \<open>show_edges\<close>, \<open>show_faces\<close>, \<open>opacity\<close> and \<open>selected\<close>, and an
  unrecognised one fails with \<open>InvalidOption\<close>. \<open>supported\<close> lists the variant tags that
  have a wrapper class.
\<close>

definition recognized_options :: "string list" where
  "recognized_options =
     [''color'', ''linecolor'', ''facecolor'', ''show_vertices'', ''show_edges'',
      ''show_faces'', ''opacity'', ''selected'']"

definition Object_build ::
  "string list \<Rightarrow> geometry \<Rightarrow> (string \<times> option_value) list \<Rightarrow> error + wrapper" where
  "Object_build supported data kwargs =
     (case data of Geometry variant _ \<Rightarrow>
        if variant \<notin> set supported then Inl UnsupportedGeometryKind
        else if \<not> list_all (\<lambda>k. k \<in> set recognized_options) (map fst kwargs)
        then Inl InvalidOption
        else Inr (data, kwargs))"

text \<open>The app that \<^verbatim>\<open>viewer = App()\<close> constructs when the configuration has neither a
  menu bar nor a tool bar, with a selector that records the objects handed to it, and the
  key of an object whose class defines neither \<^verbatim>\<open>__hash__\<close> nor \<^verbatim>\<open>__eq__\<close>: its
  identity.\<close>

definition id_key :: "ref \<Rightarrow> wrapper \<Rightarrow> ref" where
  "id_key obj ob = obj"

definition viewer :: "(wrapper, ref list, ref) app" where
  "viewer =
     \<lparr>width = 800, height = 500, view_class = View120, view_mode = ''shaded'',
      view_objects = [], view_valid = False, selector = [], has_menubar = False,
      objs = [], init_calls = []\<rparr>"

definition Selector_add :: "ref list \<Rightarrow> ref \<Rightarrow> error + ref list" where
  "Selector_add sel obj = Inr (sel @ [obj])"

subsection \<open>The items \<^verbatim>\<open>add_menubar_items\<close> dispatches on\<close>

text \<open>
  The four types the \<^verbatim>\<open>if\<close>/\<^verbatim>\<open>elif\<close> chain of \<^verbatim>\<open>add_menubar_items\<close> tests for, and
  the items whose type it tests: the elements of the list it is given and, through the
  recursive call of the \<^verbatim>\<open>menu\<close> branch, the elements of the \<^verbatim>\<open>items\<close> of a menu. The
  children of a \<^verbatim>\<open>radio\<close> group are not among them: the inner loop hands each to
  \<^verbatim>\<open>add_action\<close> without looking at its type.
\<close>

definition item_types :: "string list" where
  "item_types = [''separator'', ''menu'', ''radio'', ''action'']"

definition known_type :: "json \<Rightarrow> bool" where
  "known_type item =
     (case subscript item ''type'' of
        Inr (JStr t) \<Rightarrow> t \<in> set item_types
      | _ \<Rightarrow> False)"

function dispatched :: "json \<Rightarrow> json list"
and dispatched_loop :: "json list \<Rightarrow> json list"
where
  "dispatched items = (case items of JArr xs \<Rightarrow> dispatched_loop xs | _ \<Rightarrow> [])"
| "dispatched_loop [] = []"
| "dispatched_loop (item # rest) =
     item #
     (if subscript item ''type'' = Inr (JStr ''menu'')
      then (case subscript item ''items'' of Inr sub \<Rightarrow> dispatched sub | Inl _ \<Rightarrow> [])
      else []) @
     dispatched_loop rest"
  by pat_completeness auto
termination
proof (relation "measure (\<lambda>x. case x of
          Inl items \<Rightarrow> size items
        | Inr xs \<Rightarrow> size_list size xs)")
qed (auto dest: subscript_smaller)

subsection \<open>Picking\<close>

text \<open>
  Modelled from the spec: the class \<^verbatim>\<open>Selector\<close> and its picking are defined outside this
  module. The spec's \<^verbatim>\<open>pick(x, y)\<close> resolves a pixel against the current viewport state and
  the registry contents to the nearest visible object under that pixel, or none if no
  object covers it; among several objects under the pixel the one nearest to the camera in
  depth is returned. \<open>depth_at h x y\<close> is the depth at which the object \<open>h\<close> is visible
  at the pixel under the current viewport state, \<open>None\<close> when it does not cover the pixel.
\<close>

fun pick_hit ::
  "('h \<Rightarrow> int \<Rightarrow> int \<Rightarrow> 'z option) \<Rightarrow> 'h list \<Rightarrow> int \<Rightarrow> int \<Rightarrow> ('h \<times> 'z::linorder) option" where
  "pick_hit depth_at [] x y = None"
| "pick_hit depth_at (h # hs) x y =
     (case depth_at h x y of
        None \<Rightarrow> pick_hit depth_at hs x y
      | Some d \<Rightarrow>
          (case pick_hit depth_at hs x y of
             None \<Rightarrow> Some (h, d)
           | Some (h', d') \<Rightarrow> if d \<le> d' then Some (h, d) else Some (h', d')))"

definition pick ::
  "('h \<Rightarrow> int \<Rightarrow> int \<Rightarrow> 'z::linorder option) \<Rightarrow> 'h list \<Rightarrow> int \<Rightarrow> int \<Rightarrow> 'h option" where
  "pick depth_at registry x y = map_option fst (pick_hit depth_at registry x y)"

subsection \<open>A sample environment and configuration\<close>

text \<open>An environment in which the package is installed under \<^verbatim>\<open>/opt\<close>, no application
  object exists yet, the desktop offers 1920 by 1080 pixels and the configuration file
  holds an empty dictionary; and a menu bar description that uses each of the four item
  types.\<close>

definition script_env :: "ref list env" where
  "script_env =
     \<lparr>module_dir = ''/opt/compas_view2/app'', qapp_running = False,
      desktop_size = (1920, 1080), loaded_config = Inr (JObj []),
      controller_attrs = [(''about'', True), (''view_shaded'', True), (''view_ghosted'', True)],
      new_selector = []\<rparr>"

definition sample_menubar :: json where
  "sample_menubar =
     JArr [JObj [(''type'', JStr ''menu''), (''text'', JStr ''View''),
                 (''items'', JArr
                    [JObj [(''type'', JStr ''radio''),
                           (''items'', JArr
                              [JObj [(''type'', JStr ''action''), (''text'', JStr ''Shaded''),
                                     (''action'', JStr ''view_shaded''),
                                     (''checked'', JBool True)],
                               JObj [(''type'', JStr ''action''), (''text'', JStr ''Ghosted''),
                                     (''action'', JStr ''view_ghosted''),
                                     (''checked'', JBool False)]])],
                     JObj [(''type'', JStr ''separator'')]])],
           JObj [(''type'', JStr ''action''), (''text'', JStr ''About''),
                 (''action'', JStr ''about'')]]"

subsection \<open>Facts about \<^verbatim>\<open>App.add\<close>\<close>

lemma add_result_cases:
  "fst (add build key_of sel_add self data kwargs) = Inr v \<Longrightarrow> v = PyNone"
  by (auto simp: add_def Let_def split: sum.splits if_splits)

lemma add_success:
  assumes "add build key_of sel_add self data kwargs = (Inr v, self')"
  obtains ob sel where
    "build data kwargs = Inr ob"
    "sel_add (selector self) (length (objs self)) = Inr sel"
    "objs self' = objs self @ [ob]"
    "view_objects self' =
       AList.update (key_of (length (objs self)) ob) (length (objs self)) (view_objects self)"
    "selector self' = sel"
    "init_calls self' =
       (if view_valid self then init_calls self @ [length (objs self)] else init_calls self)"
    "view_valid self' = view_valid self"
    "view_class self' = view_class self"
  using assms by (auto simp: add_def Let_def split: sum.splits if_splits)

lemma update_new_key:
  "k \<notin> fst ` set al \<Longrightarrow> AList.update k v al = al @ [(k, v)]"
  by (induction al) auto

lemma new_key_not_in_registry:
  assumes "identity_keys key_of" "registry_ok self" "registry_keyed key_of self"
  shows "key_of (length (objs self)) ob \<notin> fst ` set (view_objects self)"
proof
  assume "key_of (length (objs self)) ob \<in> fst ` set (view_objects self)"
  then obtain r where e: "(key_of (length (objs self)) ob, r) \<in> set (view_objects self)"
    by auto
  with assms(3) have "key_of (length (objs self)) ob = key_of r (objs self ! r)"
    by (auto simp: registry_keyed_def list_all_iff)
  with assms(1) have "length (objs self) = r"
    unfolding identity_keys_def by blast
  moreover from e assms(2) have "r < length (objs self)"
    by (force simp: registry_ok_def list_all_iff)
  ultimately show False by simp
qed

lemma add_registry:
  assumes "identity_keys key_of" "registry_ok self" "registry_keyed key_of self"
    and "add build key_of sel_add self data kwargs = (Inr v, self')"
  shows "registry_ok self'" "registry_keyed key_of self'"
    "length (view_objects self') = Suc (length (view_objects self))"
proof -
  let ?n = "length (objs self)"
  from assms(4) obtain ob where
    o: "objs self' = objs self @ [ob]" and
    u: "view_objects self' = AList.update (key_of ?n ob) ?n (view_objects self)" and
    i: "init_calls self' = (if view_valid self then init_calls self @ [?n] else init_calls self)"
    by (rule add_success)
  from new_key_not_in_registry [OF assms(1-3)]
  have new: "key_of ?n ob \<notin> fst ` set (view_objects self)" .
  from u new have v: "view_objects self' = view_objects self @ [(key_of ?n ob, ?n)]"
    by (simp add: update_new_key)
  from assms(2) have
    old: "\<forall>r \<in> snd ` set (view_objects self). r < ?n" "\<forall>r \<in> set (init_calls self). r < ?n"
    by (simp_all add: registry_ok_def list_all_iff)
  then show "registry_ok self'"
    by (auto simp: registry_ok_def list_all_iff less_Suc_eq v o i)
  from assms(3) have
    k: "\<forall>kr \<in> set (view_objects self). fst kr = key_of (snd kr) (objs self ! snd kr)" and
    d: "distinct (map fst (view_objects self))"
    by (simp_all add: registry_keyed_def list_all_iff)
  have "fst kr = key_of (snd kr) ((objs self @ [ob]) ! snd kr)"
    if "kr \<in> set (view_objects self)" for kr
  proof -
    from that old(1) have "snd kr < ?n" by auto
    with k that show ?thesis by (simp add: nth_append)
  qed
  with d new show "registry_keyed key_of self'"
    by (auto simp: registry_keyed_def list_all_iff v o)
  from v show "length (view_objects self') = Suc (length (view_objects self))"
    by simp
qed

lemma add_script_registry:
  "identity_keys key_of \<Longrightarrow> registry_ok self \<Longrightarrow> registry_keyed key_of self \<Longrightarrow>
   add_script build key_of sel_add self reqs = Inr self' \<Longrightarrow>
   registry_keyed key_of self' \<and>
   length (view_objects self') = length (view_objects self) + length reqs"
proof (induction reqs arbitrary: self)
  case Nil
  then show ?case by simp
next
  case (Cons req reqs)
  obtain data kwargs where req: "req = (data, kwargs)" by (cases req)
  from Cons.prems(4) obtain v s1 where
    a: "add build key_of sel_add self data kwargs = (Inr v, s1)" and
    r: "add_script build key_of sel_add s1 reqs = Inr self'"
    by (auto simp: req split: prod.splits sum.splits)
  note step = add_registry [OF Cons.prems(1-3) a]
  from Cons.IH [OF Cons.prems(1) step(1) step(2) r] step(3)
  show ?case by simp
qed

lemma add_not_valid_no_init:
  "\<not> view_valid self \<Longrightarrow>
   init_calls (snd (add build key_of sel_add self data kwargs)) = init_calls self \<and>
   view_valid (snd (add build key_of sel_add self data kwargs)) = view_valid self"
  by (auto simp: add_def Let_def split: sum.splits)

lemma add_script_not_valid_no_init:
  "\<not> view_valid self \<Longrightarrow> add_script build key_of sel_add self reqs = Inr self' \<Longrightarrow>
   init_calls self' = init_calls self"
proof (induction reqs arbitrary: self)
  case Nil
  then show ?case by simp
next
  case (Cons req reqs)
  obtain data kwargs where req: "req = (data, kwargs)" by (cases req)
  from Cons.prems(2) obtain v s1 where
    a: "add build key_of sel_add self data kwargs = (Inr v, s1)" and
    r: "add_script build key_of sel_add s1 reqs = Inr self'"
    by (auto simp: req split: prod.splits sum.splits)
  from add_not_valid_no_init [OF Cons.prems(1), of build key_of sel_add data kwargs] a
  have "init_calls s1 = init_calls self" "\<not> view_valid s1"
    using Cons.prems(1) by simp_all
  with Cons.IH [OF _ r] show ?case by simp
qed

text \<open>The hypothesis on the keys matters: were the key of a wrapper its content, two
  \<^verbatim>\<open>add\<close> calls with the same input would leave one entry.\<close>

lemma content_keys_merge:
  "add_script (Object_build [''Polygon'', ''Capsule'']) (\<lambda>obj ob. ob) Selector_add
     \<lparr>width = 800, height = 500, view_class = View120, view_mode = ''shaded'',
      view_objects = [], view_valid = False, selector = [], has_menubar = False,
      objs = [], init_calls = []\<rparr>
     [(polygon, []), (polygon, [])] =
   Inr \<lparr>width = 800, height = 500, view_class = View120, view_mode = ''shaded'',
        view_objects = [((polygon, []), 1)], view_valid = False, selector = [0, 1],
        has_menubar = False, objs = [(polygon, []), (polygon, [])], init_calls = []\<rparr>"
  by (simp add: add_def Object_build_def Selector_add_def polygon_def recognized_options_def)

subsection \<open>Facts about the constructor\<close>

lemma py_float_small: "\<bar>n\<bar> < 2 ^ 53 \<Longrightarrow> py_float n = Inr (real_of_int n)"
proof -
  assume "\<bar>n\<bar> < 2 ^ 53"
  then have "nat \<bar>n\<bar> < 2 ^ 53" by simp
  then show ?thesis by (simp only: py_float_def Let_def if_True)
qed


text \<open>The conversion raises on an integer beyond the doubles, and \<^verbatim>\<open>resize\<close> then raises
  after the window has been resized.\<close>

lemma bit_length_pow2: "bit_length (2 ^ n) = Suc n"
proof (induction n)
  case 0
  show ?case by (simp add: bit_length.simps [of "Suc 0"] bit_length.simps [of 0])
next
  case (Suc n)
  have "bit_length (2 ^ Suc n) = Suc (bit_length (2 ^ Suc n div 2))"
    by (subst bit_length.simps) simp
  with Suc show ?case by simp
qed

lemma py_float_pow2_overflow: "py_float (2 ^ 1024) = Inl OverflowError"
proof -
  have m: "nat \<bar>2 ^ 1024 :: int\<bar> = 2 ^ 1024" by (simp del: power_numeral)
  have big: "\<not> (2 ^ 1024 :: nat) < 2 ^ 53" by (simp del: power_numeral)
  have sh: "bit_length (2 ^ 1024) - 53 = 972" by (simp add: bit_length_pow2 del: power_numeral)
  have q: "(2 ^ 1024 :: nat) div 2 ^ 972 = 2 ^ 52"
    using power_diff [of "2::nat" 972 1024] by (simp del: power_numeral)
  have r: "(2 ^ 1024 :: nat) mod 2 ^ 972 = 0"
    using le_imp_power_dvd [of 972 1024 "2::nat"] by (simp del: power_numeral)
  have v: "(2 ^ 52 :: nat) * 2 ^ 972 = 2 ^ 1024"
    using power_add [of "2::nat" 52 972] by (simp del: power_numeral)
  show ?thesis
    unfolding py_float_def Let_def m sh q r
    using big v by (simp del: power_numeral)
qed

lemma resize_overflow:
  "resize (0, 0) (- (2 ^ 1024)) 0 tr = (Inl OverflowError, tr @ [WindowResize (- (2 ^ 1024)) 0])"
  using py_float_pow2_overflow by (simp add: resize_def del: power_numeral)

lemma App_init_formats:
  "fst (snd (App_init env version w h viewmode)) =
     (if version = ''120'' then
        [\<lparr>gl_version = (2, 1), gl_profile = CompatibilityProfile\<rparr>,
         \<lparr>gl_version = (2, 1), gl_profile = CompatibilityProfile\<rparr>]
      else if version = ''330'' then
        [\<lparr>gl_version = (3, 3), gl_profile = CoreProfile\<rparr>,
         \<lparr>gl_version = (3, 3), gl_profile = CoreProfile\<rparr>]
      else [])"
  by (simp add: App_init_def VERSIONS_def Let_def split: sum.splits prod.splits)

lemma App_init_view_class:
  "fst (App_init env version w h viewmode) = Inr a \<Longrightarrow>
   (version = ''120'' \<and> view_class a = View120) \<or> (version = ''330'' \<and> view_class a = View330)"
  by (auto simp: App_init_def VERSIONS_def Let_def split: sum.splits prod.splits if_splits)

lemma add_keeps_view_class:
  "view_class (snd (add build key_of sel_add self data kwargs)) = view_class self"
  by (simp add: add_def Let_def split: sum.splits)






lemma outcome_Inl:
  "outcome result = (Inl e, tr) \<Longrightarrow> \<exists>fmts. result = (Inl e, fmts, tr)"
  by (auto simp: outcome_def split: prod.splits sum.splits)

lemma undo_not_App_attribute: "map_of (App_attributes mb) ''undo'' = None"
  by (simp add: App_attributes_def App_methods_def)

lemma redo_not_App_attribute: "map_of (App_attributes mb) ''redo'' = None"
  by (simp add: App_attributes_def App_methods_def)

lemma init_toolbar_App:
  "truthy items \<Longrightarrow> init_toolbar HERE (App_attributes mb) items tr =
     (Inl (AttributeError ''undo''),
      tr @ [AddToolBar ''Tools'', SetMovable False, SetObjectName ''Tools'', SetIconSize 24 24])"
  using undo_not_App_attribute [of mb] by (simp add: init_toolbar_def Let_def)

lemma init_toolbar_with_attrs:
  "truthy items \<Longrightarrow> map_of attrs ''undo'' = Some cu \<Longrightarrow> map_of attrs ''redo'' = Some cr \<Longrightarrow>
   init_toolbar HERE attrs items tr =
     (Inr (),
      tr @ [AddToolBar ''Tools'', SetMovable False, SetObjectName ''Tools'', SetIconSize 24 24,
            AddAction ToolBar (Some (JStr (path_join (ICONS HERE) ''undo-solid.svg'')))
              (JStr ''Undo'') (SelfAttr ''undo''),
            AddAction ToolBar (Some (JStr (path_join (ICONS HERE) ''redo-solid.svg'')))
              (JStr ''Redo'') (SelfAttr ''redo'')])"
  by (simp add: init_toolbar_def Let_def)

lemma App_init_toolbar_raises:
  assumes "loaded_config env = Inr config" "dict_get config ''toolbar'' = Inr tb" "truthy tb"
  shows "\<exists>e. fst (App_init env version w h viewmode ::
           (error + ('o, 'sel, 'key) app) \<times> surface_format list \<times> ui_call list) = Inl e"
proof (cases "fst (App_init env version w h viewmode ::
           (error + ('o, 'sel, 'key) app) \<times> surface_format list \<times> ui_call list)")
  case (Inl e)
  then show ?thesis by blast
next
  case (Inr a)
  then have False
    using assms init_toolbar_App [of tb]
    by (auto simp: App_init_def Let_def split: sum.splits prod.splits option.splits if_splits)
  then show ?thesis ..
qed

subsection \<open>Facts about the menu bar\<close>

lemma has_key_subscript:
  "has_key item key \<longleftrightarrow> (\<exists>v. subscript item key = Inr v)"
proof (cases item)
  case (JObj d)
  show ?thesis
  proof (cases "map_of d key")
    case None
    then have "key \<notin> fst ` set d" by (simp add: map_of_eq_None_iff)
    with None JObj show ?thesis by simp
  next
    case (Some v)
    then have "key \<in> fst ` set d" using map_of_eq_None_iff [of d key] by simp
    with Some JObj show ?thesis by simp
  qed
qed simp_all

lemma add_menubar_loop_separator:
  "subscript item ''type'' = Inr (JStr ''separator'') \<Longrightarrow>
   add_menubar_loop C (item # rest) parent tr =
     add_menubar_loop C rest parent (tr @ [AddSeparator parent])"
  by simp

lemma add_menubar_loop_menu:
  "subscript item ''type'' = Inr (JStr ''menu'') \<Longrightarrow>
   subscript item ''text'' = Inr label \<Longrightarrow> subscript item ''items'' = Inr sub \<Longrightarrow>
   add_menubar_loop C (item # rest) parent tr =
     (case add_menubar_items C sub (Menu (length tr)) (tr @ [AddMenu parent label]) of
        (Inl e, tr2) \<Rightarrow> (Inl e, tr2)
      | (Inr _, tr2) \<Rightarrow> add_menubar_loop C rest parent tr2)"
  using has_key_subscript [of item "''items''"] by simp

lemma add_menubar_loop_radio:
  "subscript item ''type'' = Inr (JStr ''radio'') \<Longrightarrow>
   subscript item ''items'' = Inr (JArr children) \<Longrightarrow>
   add_menubar_loop C (item # rest) parent tr =
     (case radio_items C children parent (length tr) (tr @ [NewActionGroup True]) of
        (Inl e, tr2) \<Rightarrow> (Inl e, tr2)
      | (Inr _, tr2) \<Rightarrow> add_menubar_loop C rest parent tr2)"
  by simp

lemma radio_items_child:
  "add_action C child parent tr = (Inr a, tr1) \<Longrightarrow> subscript child ''checked'' = Inr c \<Longrightarrow>
   radio_items C (child # rest) parent radio tr =
     radio_items C rest parent radio
       (tr1 @ [SetCheckable a True, SetChecked a c, GroupAddAction radio a])"
  by (simp add: Let_def)

lemma add_menubar_loop_action:
  "subscript item ''type'' = Inr (JStr ''action'') \<Longrightarrow>
   add_menubar_loop C (item # rest) parent tr =
     (case add_action C item parent tr of
        (Inl e, tr1) \<Rightarrow> (Inl e, tr1)
      | (Inr _, tr1) \<Rightarrow> add_menubar_loop C rest parent tr1)"
  by simp

lemma add_action_binds:
  assumes "add_action C item parent tr = (Inr a, tr1)"
  shows "\<exists>icon label name args kwargs.
     subscript item ''action'' = Inr (JStr name) \<and> map_of C name = Some True \<and>
     a = length tr \<and> tr1 = tr @ [AddAction parent icon label (Partial name args kwargs)]"
proof -
  from assms obtain label n where
    l: "subscript item ''text'' = Inr label" and n: "subscript item ''action'' = Inr n"
    by (auto simp: add_action_def split: sum.splits)
  from assms l n obtain name callable where g: "getattr C n = Inr (name, callable)"
    by (auto simp: add_action_def split: sum.splits)
  then have nm: "n = JStr name" "map_of C name = Some callable"
    by (cases n; simp split: option.splits)+
  from assms l n g have "callable"
    by (auto simp: add_action_def Let_def split: sum.splits if_splits)
  with assms l n g nm show ?thesis
    by (auto simp: add_action_def Let_def split: sum.splits if_splits)
qed

lemma add_menubar_loop_append:
  "add_menubar_loop C (pre @ post) parent tr =
     (case add_menubar_loop C pre parent tr of
        (Inl e, tr1) \<Rightarrow> (Inl e, tr1)
      | (Inr u, tr1) \<Rightarrow> add_menubar_loop C post parent tr1)"
proof (induction pre arbitrary: tr)
  case Nil
  then show ?case by simp
next
  case (Cons item pre)
  show ?case
  proof (cases "subscript item ''type''")
    case (Inl e)
    then show ?thesis by simp
  next
    case (Inr t)
    consider "t = JStr ''separator''" | "t = JStr ''menu''" | "t = JStr ''radio''"
      | "t = JStr ''action''"
      | "t \<notin> {JStr ''separator'', JStr ''menu'', JStr ''radio'', JStr ''action''}"
      by blast
    then show ?thesis
    proof cases
      case 1
      with Inr show ?thesis by (simp add: Cons.IH)
    next
      case 2
      with Inr show ?thesis by (simp add: Cons.IH split: sum.split prod.split)
    next
      case 3
      with Inr show ?thesis by (simp add: Cons.IH split: sum.split prod.split)
    next
      case 4
      with Inr show ?thesis by (simp add: Cons.IH split: sum.split prod.split)
    next
      case 5
      with Inr show ?thesis by simp
    qed
  qed
qed

lemma add_menubar_loop_unknown:
  assumes "add_menubar_loop C pre parent tr = (Inr u, tr1)"
    "subscript item ''type'' = Inr t"
    "t \<notin> {JStr ''separator'', JStr ''menu'', JStr ''radio'', JStr ''action''}"
  shows "add_menubar_loop C (pre @ item # rest) parent tr = (Inl NotImplementedError, tr1)"
proof -
  from assms(2,3)
  have "add_menubar_loop C (item # rest) parent tr1 = (Inl NotImplementedError, tr1)"
    by simp
  with assms(1) show ?thesis
    by (simp add: add_menubar_loop_append)
qed

lemma dispatched_known:
  "add_menubar_items C items parent tr = (Inr u, tr') \<Longrightarrow>
   list_all known_type (dispatched items)"
  "add_menubar_loop C xs parent tr = (Inr u, tr') \<Longrightarrow>
   list_all known_type (dispatched_loop xs)"
proof (induction C items parent tr and C xs parent tr arbitrary: u tr' and u tr'
    rule: add_menubar_items_add_menubar_loop.induct)
  case (1 controller items parent tr)
  then show ?case
    by (cases items) (auto split: if_splits)
next
  case (2 controller parent tr)
  then show ?case by simp
next
  case (3 controller item rest parent tr)
  from "3.prems" obtain t where t: "subscript item ''type'' = Inr t"
    by (auto split: sum.splits)
  show ?case
  proof (cases "t = JStr ''separator''")
    case sep: True
    from "3.prems" t sep
    have r: "add_menubar_loop controller rest parent (tr @ [AddSeparator parent]) = (Inr u, tr')"
      by simp
    have "known_type item"
      using t sep by (simp add: known_type_def item_types_def)
    with "3.IH"(1) [OF t sep r] t sep show ?thesis by simp
  next
    case nsep: False
    show ?thesis
    proof (cases "t = JStr ''menu''")
      case menu: True
      have k: "known_type item"
        using t menu by (simp add: known_type_def item_types_def)
      from "3.prems" t menu obtain label where label: "subscript item ''text'' = Inr label"
        by (auto split: sum.splits)
      show ?thesis
      proof (cases "has_key item ''items''")
        case hk: True
        from "3.prems" t menu label hk obtain sub where sub: "subscript item ''items'' = Inr sub"
          by (auto split: sum.splits)
        from "3.prems" t menu label hk sub obtain u2 tr2 where
          m: "add_menubar_items controller sub (Menu (length tr)) (tr @ [AddMenu parent label]) =
                (Inr u2, tr2)" and
          r: "add_menubar_loop controller rest parent tr2 = (Inr u, tr')"
          by (auto split: sum.splits prod.splits)
        from "3.IH"(2) [OF t nsep menu label hk sub m]
        have "list_all known_type (dispatched sub)" .
        moreover from "3.IH"(3) [OF t nsep menu label hk sub m [symmetric] refl r]
        have "list_all known_type (dispatched_loop rest)" .
        ultimately show ?thesis using k t menu sub by simp
      next
        case nhk: False
        from "3.prems" t menu label nhk
        have r: "add_menubar_loop controller rest parent (tr @ [AddMenu parent label]) = (Inr u, tr')"
          by simp
        have "subscript item ''items'' \<noteq> Inr sub" for sub
          using nhk has_key_subscript [of item "''items''"] by simp
        then have "(case subscript item ''items'' of Inr sub \<Rightarrow> dispatched sub | Inl _ \<Rightarrow> []) = []"
          by (auto split: sum.splits)
        with "3.IH"(4) [OF t nsep menu label nhk r] k t menu show ?thesis by simp
      qed
    next
      case nmenu: False
      show ?thesis
      proof (cases "t = JStr ''radio''")
        case radio: True
        have k: "known_type item"
          using t radio by (simp add: known_type_def item_types_def)
        from "3.prems" t radio obtain its children u2 tr2 where
          its: "subscript item ''items'' = Inr its" and
          ch: "iterate its = Inr children" and
          m: "radio_items controller children parent (length tr) (tr @ [NewActionGroup True]) =
                (Inr u2, tr2)" and
          r: "add_menubar_loop controller rest parent tr2 = (Inr u, tr')"
          by (auto split: sum.splits prod.splits)
        from "3.IH"(5) [OF t nsep nmenu radio its ch m [symmetric] refl r] k t radio
        show ?thesis by simp
      next
        case nradio: False
        show ?thesis
        proof (cases "t = JStr ''action''")
          case action: True
          have k: "known_type item"
            using t action by (simp add: known_type_def item_types_def)
          from "3.prems" t action obtain a tr1 where
            m: "add_action controller item parent tr = (Inr a, tr1)" and
            r: "add_menubar_loop controller rest parent tr1 = (Inr u, tr')"
            by (auto split: sum.splits prod.splits)
          from "3.IH"(6) [OF t nsep nmenu nradio action m [symmetric] refl r] k t action
          show ?thesis by simp
        next
          case False
          with "3.prems" t nsep nmenu nradio show ?thesis by simp
        qed
      qed
    qed
  qed
qed

subsection \<open>Facts about picking\<close>

lemma pick_hit_None:
  "pick_hit D reg x y = None \<longleftrightarrow> (\<forall>h \<in> set reg. D h x y = None)"
  by (induction reg) (auto split: option.splits)

lemma pick_hit_Some:
  "pick_hit D reg x y = Some (h, d) \<Longrightarrow>
   h \<in> set reg \<and> D h x y = Some d \<and>
   (\<forall>h' \<in> set reg. \<forall>d'. D h' x y = Some d' \<longrightarrow> d \<le> d')"
proof (induction reg arbitrary: h d)
  case Nil
  then show ?case by simp
next
  case (Cons g reg)
  show ?case
  proof (cases "D g x y")
    case None
    with Cons.prems have "pick_hit D reg x y = Some (h, d)" by simp
    from Cons.IH [OF this] None show ?thesis by auto
  next
    case (Some e)
    show ?thesis
    proof (cases "pick_hit D reg x y")
      case None
      with Some Cons.prems have "h = g" "d = e" by simp_all
      moreover from None have "\<forall>h' \<in> set reg. D h' x y = None"
        by (simp add: pick_hit_None)
      ultimately show ?thesis using Some by auto
    next
      case hit: (Some p)
      obtain h2 d2 where p: "p = (h2, d2)" by (cases p)
      from Cons.IH [of h2 d2] hit p have
        ih: "h2 \<in> set reg" "D h2 x y = Some d2"
          "\<forall>h' \<in> set reg. \<forall>d'. D h' x y = Some d' \<longrightarrow> d2 \<le> d'"
        by simp_all
      show ?thesis
      proof (cases "e \<le> d2")
        case True
        with Some hit p Cons.prems have "h = g" "d = e" by simp_all
        with Some ih True show ?thesis by (auto intro: order_trans)
      next
        case False
        with Some hit p Cons.prems have "h = h2" "d = d2" by simp_all
        with Some ih False show ?thesis by auto
      qed
    qed
  qed
qed

section \<open>The claims\<close>

text \<open>
  C1. The claim: the public add operation returns the handle of the newly registered
  renderable object. The method has no \<^verbatim>\<open>return\<close> statement: at the first call of
  scripts/v120\_on\_select.py, \<^verbatim>\<open>obj = viewer.add(polygon, linecolor=(0, 0, 1))\<close>, the
  object is registered under identity 0 and the call evaluates to \<^verbatim>\<open>None\<close>
  (by \<open>add_result_cases\<close>, so does every call that does not raise).
\<close>

theorem add_returns_None:
  "add (Object_build [''Polygon'', ''Capsule'']) id_key Selector_add viewer polygon
       [(''linecolor'', RGB 0 0 1)] =
   (Inr PyNone,
    viewer\<lparr>objs := [(polygon, [(''linecolor'', RGB 0 0 1)])], view_objects := [(0, 0)],
           selector := [0]\<rparr>)"
  by (simp add: add_def Object_build_def Selector_add_def id_key_def viewer_def polygon_def
      recognized_options_def)

text \<open>
  C2. When the view's rendering context is valid and the wrapper is built and handed to
  the selector without an exception, \<^verbatim>\<open>add\<close> calls \<^verbatim>\<open>init()\<close> on the new object,
  and on no other. When the context is not valid, \<^verbatim>\<open>add\<close> calls \<^verbatim>\<open>init()\<close> on
  nothing, the new object is left uninitialised, and no later sequence of \<^verbatim>\<open>add\<close>
  calls initialises anything.
\<close>

theorem add_init_timing:
  assumes "registry_ok self"
  shows
    "(view_valid self \<longrightarrow> build data kwargs = Inr ob \<longrightarrow>
        sel_add (selector self) (length (objs self)) = Inr sel \<longrightarrow>
        fst (add build key_of sel_add self data kwargs) = Inr PyNone \<and>
        init_calls (snd (add build key_of sel_add self data kwargs)) =
          init_calls self @ [length (objs self)] \<and>
        initialized (snd (add build key_of sel_add self data kwargs)) (length (objs self))) \<and>
     (\<not> view_valid self \<longrightarrow>
        init_calls (snd (add build key_of sel_add self data kwargs)) = init_calls self \<and>
        \<not> initialized (snd (add build key_of sel_add self data kwargs)) (length (objs self)) \<and>
        (\<forall>reqs self'.
           add_script build key_of sel_add (snd (add build key_of sel_add self data kwargs)) reqs = Inr self'
           \<longrightarrow> init_calls self' = init_calls self))"
proof (intro conjI impI allI)
  assume "view_valid self" "build data kwargs = Inr ob"
    "sel_add (selector self) (length (objs self)) = Inr sel"
  then show "fst (add build key_of sel_add self data kwargs) = Inr PyNone"
    "init_calls (snd (add build key_of sel_add self data kwargs)) =
       init_calls self @ [length (objs self)]"
    "initialized (snd (add build key_of sel_add self data kwargs)) (length (objs self))"
    by (simp_all add: add_def Let_def initialized_def)
next
  assume nv: "\<not> view_valid self"
  let ?s = "snd (add build key_of sel_add self data kwargs)"
  from add_not_valid_no_init [OF nv, of build key_of sel_add data kwargs]
  have same: "init_calls ?s = init_calls self" and nv': "\<not> view_valid ?s"
    using nv by simp_all
  show "init_calls ?s = init_calls self" by (fact same)
  from assms have "length (objs self) \<notin> set (init_calls self)"
    by (auto simp: registry_ok_def list_all_iff)
  then show "\<not> initialized ?s (length (objs self))"
    by (simp add: initialized_def same)
  fix reqs self'
  assume "add_script build key_of sel_add ?s reqs = Inr self'"
  from add_script_not_valid_no_init [OF nv' this] same
  show "init_calls self' = init_calls self" by simp
qed

theorem add_init_timing_witness:
  "init_calls (snd (add (Object_build [''Polygon'', ''Capsule'']) id_key Selector_add
      (viewer\<lparr>view_valid := True\<rparr>) polygon [(''linecolor'', RGB 0 0 1)])) = [0] \<and>
   init_calls (snd (add (Object_build [''Polygon'', ''Capsule'']) id_key Selector_add
      viewer polygon [(''linecolor'', RGB 0 0 1)])) = []"
proof -
  have ok: "registry_ok (viewer\<lparr>view_valid := True\<rparr>)" "registry_ok viewer"
    by (simp_all add: registry_ok_def viewer_def)
  have b: "Object_build [''Polygon'', ''Capsule''] polygon [(''linecolor'', RGB 0 0 1)] =
      Inr (polygon, [(''linecolor'', RGB 0 0 1)])"
    by (simp add: Object_build_def polygon_def recognized_options_def)
  have s: "Selector_add (selector (viewer\<lparr>view_valid := True\<rparr>))
      (length (objs (viewer\<lparr>view_valid := True\<rparr>))) = Inr [0]"
    by (simp add: Selector_add_def viewer_def)
  have v: "view_valid (viewer\<lparr>view_valid := True\<rparr>)" "\<not> view_valid viewer"
    by (simp_all add: viewer_def)
  from add_init_timing [OF ok(1), where build = "Object_build [''Polygon'', ''Capsule'']"
      and data = polygon and kwargs = "[(''linecolor'', RGB 0 0 1)]"
      and ob = "(polygon, [(''linecolor'', RGB 0 0 1)])" and key_of = id_key
      and sel_add = Selector_add and sel = "[0]"] b s v(1)
  have "init_calls (snd (add (Object_build [''Polygon'', ''Capsule'']) id_key Selector_add
      (viewer\<lparr>view_valid := True\<rparr>) polygon [(''linecolor'', RGB 0 0 1)])) =
      init_calls (viewer\<lparr>view_valid := True\<rparr>) @ [length (objs (viewer\<lparr>view_valid := True\<rparr>))]"
    by blast
  moreover
  from add_init_timing [OF ok(2), where build = "Object_build [''Polygon'', ''Capsule'']"
      and data = polygon and kwargs = "[(''linecolor'', RGB 0 0 1)]"
      and ob = "(polygon, [(''linecolor'', RGB 0 0 1)])" and key_of = id_key
      and sel_add = Selector_add and sel = "[0]"] v(2)
  have "init_calls (snd (add (Object_build [''Polygon'', ''Capsule'']) id_key Selector_add
      viewer polygon [(''linecolor'', RGB 0 0 1)])) = init_calls viewer"
    by blast
  ultimately show ?thesis by (simp add: viewer_def)
qed

text \<open>
  C3. If \<^verbatim>\<open>Object.build\<close> raises, \<^verbatim>\<open>add\<close> raises the same exception and the state of
  the app is the one before the call: nothing is inserted into the view's object map and
  nothing is handed to the selector.
\<close>

theorem add_build_failure_unchanged:
  "build data kwargs = Inl e \<Longrightarrow>
   add build key_of sel_add self data kwargs = (Inl e, self) \<and>
   view_objects (snd (add build key_of sel_add self data kwargs)) = view_objects self \<and>
   selector (snd (add build key_of sel_add self data kwargs)) = selector self"
  by (simp add: add_def)

theorem add_build_failure_unchanged_witness:
  "Object_build [''Polygon'', ''Capsule''] (Geometry ''Nurbs'' [1]) [] =
     Inl UnsupportedGeometryKind \<and>
   add (Object_build [''Polygon'', ''Capsule'']) id_key Selector_add viewer (Geometry ''Nurbs'' [1]) [] =
     (Inl UnsupportedGeometryKind, viewer) \<and>
   Object_build [''Polygon'', ''Capsule''] polygon [(''colour'', RGB 0 0 1)] = Inl InvalidOption \<and>
   add (Object_build [''Polygon'', ''Capsule'']) id_key Selector_add viewer polygon
       [(''colour'', RGB 0 0 1)] = (Inl InvalidOption, viewer)"
proof -
  have u: "Object_build [''Polygon'', ''Capsule''] (Geometry ''Nurbs'' [1]) [] =
      Inl UnsupportedGeometryKind"
    by (simp add: Object_build_def)
  have i: "Object_build [''Polygon'', ''Capsule''] polygon [(''colour'', RGB 0 0 1)] =
      Inl InvalidOption"
    by (simp add: Object_build_def polygon_def recognized_options_def)
  from
    add_build_failure_unchanged [where build = "Object_build [''Polygon'', ''Capsule'']"
      and data = "Geometry ''Nurbs'' [1]" and kwargs = "[]" and e = UnsupportedGeometryKind
      and key_of = id_key and sel_add = Selector_add and self = viewer]
    add_build_failure_unchanged [where build = "Object_build [''Polygon'', ''Capsule'']"
      and data = polygon and kwargs = "[(''colour'', RGB 0 0 1)]" and e = InvalidOption
      and key_of = id_key and sel_add = Selector_add and self = viewer]
    u i
  show ?thesis by blast
qed

text \<open>
  C4. For a version that is neither \<^verbatim>\<open>'120'\<close> nor \<^verbatim>\<open>'330'\<close> the constructor raises
  \<^verbatim>\<open>Exception\<close> at its first statement: no surface format has been installed, no call on
  the toolkit has been made (no application, window, view or selector exists) and no app
  is returned.
\<close>

theorem App_init_rejects_version:
  "version \<notin> {''120'', ''330''} \<Longrightarrow>
   App_init env version w h viewmode =
     (Inl (Exception
        ''Only these versions are currently supported: {'120': (2, 1), '330': (3, 3)}''),
      [], [])"
  by (simp add: App_init_def VERSIONS_def)

theorem App_init_rejects_version_witness:
  "(App_init script_env ''121'' 800 500 ''shaded'' ::
      (error + (wrapper, ref list, ref) app) \<times> surface_format list \<times> ui_call list) =
     (Inl (Exception
        ''Only these versions are currently supported: {'120': (2, 1), '330': (3, 3)}''),
      [], [])"
  using App_init_rejects_version [of "''121''" script_env 800 500 "''shaded''"]
  by simp

text \<open>
  C5. The constructor installs the surface format of the requested version, (2, 1) with
  the compatibility profile for \<^verbatim>\<open>'120'\<close> and (3, 3) with the core profile for
  \<^verbatim>\<open>'330'\<close>, and nothing for any other version; an app it returns has the view class
  \<^verbatim>\<open>View120\<close> for \<^verbatim>\<open>'120'\<close> and \<^verbatim>\<open>View330\<close> for \<^verbatim>\<open>'330'\<close>, and there is no third
  case; \<^verbatim>\<open>add\<close> leaves the view class as it is.
\<close>

theorem profile_chosen_at_construction:
  "fst (snd (App_init env version w h viewmode ::
        (error + ('o, 'sel, 'key) app) \<times> surface_format list \<times> ui_call list)) =
     (if version = ''120'' then
        [\<lparr>gl_version = (2, 1), gl_profile = CompatibilityProfile\<rparr>,
         \<lparr>gl_version = (2, 1), gl_profile = CompatibilityProfile\<rparr>]
      else if version = ''330'' then
        [\<lparr>gl_version = (3, 3), gl_profile = CoreProfile\<rparr>,
         \<lparr>gl_version = (3, 3), gl_profile = CoreProfile\<rparr>]
      else []) \<and>
   (\<forall>a :: ('o, 'sel, 'key) app. fst (App_init env version w h viewmode) = Inr a \<longrightarrow>
      (version = ''120'' \<and> view_class a = View120) \<or>
      (version = ''330'' \<and> view_class a = View330)) \<and>
   (\<forall>(build :: 'd \<Rightarrow> 'k \<Rightarrow> error + 'o) key_of sel_add (self :: ('o, 'sel, 'key) app)
       data kwargs.
      view_class (snd (add build key_of sel_add self data kwargs)) = view_class self)"
  using App_init_formats [of env version w h viewmode] App_init_view_class [of env version w h viewmode]
    add_keeps_view_class
  by blast

theorem profile_chosen_at_construction_witness:
  "fst (App_init script_env ''330'' 800 500 ''shaded'') =
     Inr (viewer\<lparr>view_class := View330\<rparr>) \<and>
   view_class (viewer\<lparr>view_class := View330\<rparr>) = View330 \<and>
   fst (snd (App_init script_env ''330'' 800 500 ''shaded'' ::
        (error + (wrapper, ref list, ref) app) \<times>
        surface_format list \<times> ui_call list)) =
     [\<lparr>gl_version = (3, 3), gl_profile = CoreProfile\<rparr>,
      \<lparr>gl_version = (3, 3), gl_profile = CoreProfile\<rparr>]"
proof -
  have c: "fst (App_init script_env ''330'' 800 500 ''shaded'') =
      Inr (viewer\<lparr>view_class := View330\<rparr>)"
    by (simp add: App_init_def VERSIONS_def script_env_def viewer_def init_menubar_def
        init_toolbar_def resize_def py_float_small)
  have f: "fst (snd (App_init script_env ''330'' 800 500 ''shaded'' ::
        (error + (wrapper, ref list, ref) app) \<times>
        surface_format list \<times> ui_call list)) =
     [\<lparr>gl_version = (3, 3), gl_profile = CoreProfile\<rparr>,
      \<lparr>gl_version = (3, 3), gl_profile = CoreProfile\<rparr>]"
    using profile_chosen_at_construction [where env = script_env and version = "''330''"
      and w = 800 and h = 500 and viewmode = "''shaded''"
      and ?'o = wrapper and ?'key = ref
      and ?'d = geometry and ?'k = "(string \<times> option_value) list"]
    by simp
  from c f show ?thesis by (simp add: viewer_def)
qed

text \<open>
  C6. Spec-modelled identity: when the wrapper class keys the registry by identity
  (wrappers at different identities never share a key) and each \<^verbatim>\<open>add\<close> builds a wrapper
  of its own, then from a well-formed registry \<open>n\<close> calls of \<^verbatim>\<open>add\<close> that do not raise
  add \<open>n\<close> entries under pairwise distinct keys, whatever the inputs are, equal or not.
  Lemma \<open>content_keys_merge\<close> shows that the hypothesis on the keys is needed.
\<close>

theorem add_distinct_entries:
  "identity_keys key_of \<Longrightarrow> registry_ok self \<Longrightarrow> registry_keyed key_of self \<Longrightarrow>
   add_script build key_of sel_add self reqs = Inr self' \<Longrightarrow>
   length (view_objects self') = length (view_objects self) + length reqs \<and>
   distinct (map fst (view_objects self'))"
  using add_script_registry [of key_of self build sel_add reqs self']
  by (simp add: registry_keyed_def)

theorem add_distinct_entries_witness:
  "add_script (Object_build [''Polygon'', ''Capsule'']) id_key Selector_add viewer
     [(polygon, [(''linecolor'', RGB 0 0 1)]), (capsule, [(''facecolor'', RGB 0 0 1)])] =
     Inr (viewer\<lparr>objs := [(polygon, [(''linecolor'', RGB 0 0 1)]),
                            (capsule, [(''facecolor'', RGB 0 0 1)])],
                  view_objects := [(0, 0), (1, 1)], selector := [0, 1]\<rparr>) \<and>
   view_objects (projr (add_script (Object_build [''Polygon'', ''Capsule'']) id_key Selector_add
     viewer [(polygon, []), (polygon, [])])) = [(0, 0), (1, 1)] \<and>
   length (view_objects (projr (add_script (Object_build [''Polygon'', ''Capsule'']) id_key
     Selector_add viewer [(polygon, []), (polygon, [])]))) = 2"
proof -
  have idk: "identity_keys id_key"
    by (simp add: identity_keys_def id_key_def)
  have ok: "registry_ok viewer" "registry_keyed id_key viewer"
    by (simp_all add: registry_ok_def registry_keyed_def viewer_def)
  have one: "add_script (Object_build [''Polygon'', ''Capsule'']) id_key Selector_add viewer
     [(polygon, [(''linecolor'', RGB 0 0 1)]), (capsule, [(''facecolor'', RGB 0 0 1)])] =
     Inr (viewer\<lparr>objs := [(polygon, [(''linecolor'', RGB 0 0 1)]),
                            (capsule, [(''facecolor'', RGB 0 0 1)])],
                  view_objects := [(0, 0), (1, 1)], selector := [0, 1]\<rparr>)"
    by (simp add: add_def Object_build_def Selector_add_def id_key_def viewer_def polygon_def
        capsule_def recognized_options_def)
  have two: "add_script (Object_build [''Polygon'', ''Capsule'']) id_key Selector_add viewer
     [(polygon, []), (polygon, [])] =
     Inr (viewer\<lparr>objs := [(polygon, []), (polygon, [])],
                  view_objects := [(0, 0), (1, 1)], selector := [0, 1]\<rparr>)"
    by (simp add: add_def Object_build_def Selector_add_def id_key_def viewer_def polygon_def
        recognized_options_def)
  from add_distinct_entries [OF idk ok two] one two
  show ?thesis by (simp add: viewer_def)
qed

text \<open>
  C7 as stated: every configuration item whose type is outside the four raises. A child of
  a \<^verbatim>\<open>radio\<close> group of type \<^verbatim>\<open>'bogus'\<close> is bound as an action and the menu bar is built
  without an exception.
\<close>

theorem radio_child_type_not_checked:
  "\<not> known_type (JObj [(''type'', JStr ''bogus''), (''text'', JStr ''Shaded''),
        (''action'', JStr ''view_shaded''), (''checked'', JBool True)]) \<and>
   init_menubar [(''view_shaded'', True)]
     (JArr [JObj [(''type'', JStr ''radio''),
                  (''items'', JArr
                     [JObj [(''type'', JStr ''bogus''), (''text'', JStr ''Shaded''),
                            (''action'', JStr ''view_shaded''),
                            (''checked'', JBool True)]])]]) [] =
     (Inr (),
      [WindowMenuBar, SetNativeMenuBar False, MenuBarSetContentsMargins, NewActionGroup True,
       AddAction MenuBar None (JStr ''Shaded'') (Partial ''view_shaded'' [] []),
       SetCheckable 4 True, SetChecked 4 (JBool True), GroupAddAction 3 4])"
  by (simp add: known_type_def item_types_def init_menubar_def add_action_def)

text \<open>
  C7, amended. \<^verbatim>\<open>add_menubar_items\<close> dispatches on the type of each element of its list
  and, recursively, of the \<^verbatim>\<open>items\<close> of each menu: a separator is added to the parent as a
  separator; a menu is added and its \<^verbatim>\<open>items\<close> are processed with the new menu as parent; a
  radio item creates an exclusive action group and binds each child with \<^verbatim>\<open>add_action\<close>,
  makes it checkable, sets its checked state and adds it to the group; an action item is
  bound with \<^verbatim>\<open>add_action\<close>, which binds it to the callable controller attribute named
  by its \<^verbatim>\<open>action\<close>. When the loop reaches an item it dispatches on whose type is none of the
  four it raises \<^verbatim>\<open>NotImplementedError\<close>, with the calls made so far and nothing more; so a
  menu bar built without an exception has dispatched on items of the four types only.
\<close>

theorem menubar_item_types:
  "(\<forall>item rest. subscript item ''type'' = Inr (JStr ''separator'') \<longrightarrow>
      add_menubar_loop C (item # rest) parent tr =
        add_menubar_loop C rest parent (tr @ [AddSeparator parent])) \<and>
   (\<forall>item rest label sub.
      subscript item ''type'' = Inr (JStr ''menu'') \<longrightarrow>
      subscript item ''text'' = Inr label \<longrightarrow> subscript item ''items'' = Inr sub \<longrightarrow>
      add_menubar_loop C (item # rest) parent tr =
        (case add_menubar_items C sub (Menu (length tr)) (tr @ [AddMenu parent label]) of
           (Inl e, tr2) \<Rightarrow> (Inl e, tr2)
         | (Inr _, tr2) \<Rightarrow> add_menubar_loop C rest parent tr2)) \<and>
   (\<forall>item rest children.
      subscript item ''type'' = Inr (JStr ''radio'') \<longrightarrow>
      subscript item ''items'' = Inr (JArr children) \<longrightarrow>
      add_menubar_loop C (item # rest) parent tr =
        (case radio_items C children parent (length tr) (tr @ [NewActionGroup True]) of
           (Inl e, tr2) \<Rightarrow> (Inl e, tr2)
         | (Inr _, tr2) \<Rightarrow> add_menubar_loop C rest parent tr2)) \<and>
   (\<forall>child rest radio a tr1 c.
      add_action C child parent tr = (Inr a, tr1) \<longrightarrow> subscript child ''checked'' = Inr c \<longrightarrow>
      radio_items C (child # rest) parent radio tr =
        radio_items C rest parent radio
          (tr1 @ [SetCheckable a True, SetChecked a c, GroupAddAction radio a])) \<and>
   (\<forall>item rest. subscript item ''type'' = Inr (JStr ''action'') \<longrightarrow>
      add_menubar_loop C (item # rest) parent tr =
        (case add_action C item parent tr of
           (Inl e, tr1) \<Rightarrow> (Inl e, tr1)
         | (Inr _, tr1) \<Rightarrow> add_menubar_loop C rest parent tr1)) \<and>
   (\<forall>item a tr1. add_action C item parent tr = (Inr a, tr1) \<longrightarrow>
      (\<exists>icon label name args kwargs.
         subscript item ''action'' = Inr (JStr name) \<and> map_of C name = Some True \<and>
         a = length tr \<and> tr1 = tr @ [AddAction parent icon label (Partial name args kwargs)])) \<and>
   (\<forall>pre item rest t u tr1.
      add_menubar_loop C pre parent tr = (Inr u, tr1) \<longrightarrow>
      subscript item ''type'' = Inr t \<longrightarrow>
      t \<notin> {JStr ''separator'', JStr ''menu'', JStr ''radio'', JStr ''action''} \<longrightarrow>
      add_menubar_loop C (pre @ item # rest) parent tr = (Inl NotImplementedError, tr1)) \<and>
   (\<forall>items u tr'. add_menubar_items C items parent tr = (Inr u, tr') \<longrightarrow>
      list_all known_type (dispatched items))"
proof (intro conjI allI impI)
  fix item rest
  assume "subscript item ''type'' = Inr (JStr ''separator'')"
  then show "add_menubar_loop C (item # rest) parent tr =
      add_menubar_loop C rest parent (tr @ [AddSeparator parent])"
    by (rule add_menubar_loop_separator)
next
  fix item rest label sub
  assume "subscript item ''type'' = Inr (JStr ''menu'')"
    "subscript item ''text'' = Inr label" "subscript item ''items'' = Inr sub"
  then show "add_menubar_loop C (item # rest) parent tr =
      (case add_menubar_items C sub (Menu (length tr)) (tr @ [AddMenu parent label]) of
         (Inl e, tr2) \<Rightarrow> (Inl e, tr2)
       | (Inr _, tr2) \<Rightarrow> add_menubar_loop C rest parent tr2)"
    by (rule add_menubar_loop_menu)
next
  fix item rest children
  assume "subscript item ''type'' = Inr (JStr ''radio'')"
    "subscript item ''items'' = Inr (JArr children)"
  then show "add_menubar_loop C (item # rest) parent tr =
      (case radio_items C children parent (length tr) (tr @ [NewActionGroup True]) of
         (Inl e, tr2) \<Rightarrow> (Inl e, tr2)
       | (Inr _, tr2) \<Rightarrow> add_menubar_loop C rest parent tr2)"
    by (rule add_menubar_loop_radio)
next
  fix child rest radio a tr1 c
  assume "add_action C child parent tr = (Inr a, tr1)" "subscript child ''checked'' = Inr c"
  then show "radio_items C (child # rest) parent radio tr =
      radio_items C rest parent radio
        (tr1 @ [SetCheckable a True, SetChecked a c, GroupAddAction radio a])"
    by (rule radio_items_child)
next
  fix item rest
  assume "subscript item ''type'' = Inr (JStr ''action'')"
  then show "add_menubar_loop C (item # rest) parent tr =
      (case add_action C item parent tr of
         (Inl e, tr1) \<Rightarrow> (Inl e, tr1)
       | (Inr _, tr1) \<Rightarrow> add_menubar_loop C rest parent tr1)"
    by (rule add_menubar_loop_action)
next
  fix item a tr1
  assume "add_action C item parent tr = (Inr a, tr1)"
  then show "\<exists>icon label name args kwargs.
      subscript item ''action'' = Inr (JStr name) \<and> map_of C name = Some True \<and>
      a = length tr \<and> tr1 = tr @ [AddAction parent icon label (Partial name args kwargs)]"
    by (rule add_action_binds)
next
  fix pre item rest t u tr1
  assume "add_menubar_loop C pre parent tr = (Inr u, tr1)" "subscript item ''type'' = Inr t"
    "t \<notin> {JStr ''separator'', JStr ''menu'', JStr ''radio'', JStr ''action''}"
  then show "add_menubar_loop C (pre @ item # rest) parent tr = (Inl NotImplementedError, tr1)"
    by (rule add_menubar_loop_unknown)
next
  fix items u tr'
  assume "add_menubar_items C items parent tr = (Inr u, tr')"
  then show "list_all known_type (dispatched items)"
    by (rule dispatched_known(1))
qed

theorem menubar_item_types_witness:
  "add_menubar_items [(''about'', True), (''view_shaded'', True), (''view_ghosted'', True)] sample_menubar MenuBar [] =
     (Inr (),
      [AddMenu MenuBar (JStr ''View''), NewActionGroup True,
       AddAction (Menu 0) None (JStr ''Shaded'') (Partial ''view_shaded'' [] []),
       SetCheckable 2 True, SetChecked 2 (JBool True), GroupAddAction 1 2,
       AddAction (Menu 0) None (JStr ''Ghosted'') (Partial ''view_ghosted'' [] []),
       SetCheckable 6 True, SetChecked 6 (JBool False), GroupAddAction 1 6,
       AddSeparator (Menu 0),
       AddAction MenuBar None (JStr ''About'') (Partial ''about'' [] [])]) \<and>
   list_all known_type (dispatched sample_menubar) \<and>
   add_menubar_loop [(''about'', True), (''view_shaded'', True), (''view_ghosted'', True)]
     ([JObj [(''type'', JStr ''separator'')]] @ JObj [(''type'', JStr ''toolbar'')] #
      [JObj [(''type'', JStr ''separator'')]]) MenuBar [] =
     (Inl NotImplementedError, [AddSeparator MenuBar])"
proof -
  let ?C = "[(''about'', True), (''view_shaded'', True), (''view_ghosted'', True)]"
  have built: "add_menubar_items ?C sample_menubar MenuBar [] =
     (Inr (),
      [AddMenu MenuBar (JStr ''View''), NewActionGroup True,
       AddAction (Menu 0) None (JStr ''Shaded'') (Partial ''view_shaded'' [] []),
       SetCheckable 2 True, SetChecked 2 (JBool True), GroupAddAction 1 2,
       AddAction (Menu 0) None (JStr ''Ghosted'') (Partial ''view_ghosted'' [] []),
       SetCheckable 6 True, SetChecked 6 (JBool False), GroupAddAction 1 6,
       AddSeparator (Menu 0),
       AddAction MenuBar None (JStr ''About'') (Partial ''about'' [] [])])"
    by (simp add: sample_menubar_def add_action_def)
  have pre: "add_menubar_loop ?C [JObj [(''type'', JStr ''separator'')]] MenuBar [] =
      (Inr (), [AddSeparator MenuBar])"
    by simp
  have ty: "subscript (JObj [(''type'', JStr ''toolbar'')]) ''type'' = Inr (JStr ''toolbar'')"
    by simp
  have other: "JStr ''toolbar'' \<notin>
      {JStr ''separator'', JStr ''menu'', JStr ''radio'', JStr ''action''}"
    by simp
  note inst = menubar_item_types [where C = ?C and parent = MenuBar and tr = "[]"]
  note known = inst [THEN conjunct2, THEN conjunct2, THEN conjunct2, THEN conjunct2,
      THEN conjunct2, THEN conjunct2, THEN conjunct2, rule_format]
  note unknown = inst [THEN conjunct2, THEN conjunct2, THEN conjunct2, THEN conjunct2,
      THEN conjunct2, THEN conjunct2, THEN conjunct1, rule_format]
  from known [OF built] have k: "list_all known_type (dispatched sample_menubar)" .
  from unknown [OF pre ty other]
  have u: "add_menubar_loop ?C
     ([JObj [(''type'', JStr ''separator'')]] @ JObj [(''type'', JStr ''toolbar'')] #
      [JObj [(''type'', JStr ''separator'')]]) MenuBar [] =
     (Inl NotImplementedError, [AddSeparator MenuBar])" .
  show ?thesis
    by (rule conjI [OF built conjI [OF k u]])
qed

text \<open>
  C8. Spec-modelled picking: a pixel that exactly one object of the registry covers picks
  that object; a pixel that no object covers picks nothing, as a value and not as an
  error; and whenever an object is picked it is an object of the registry that covers the
  pixel, at a depth no greater than that of any other object covering it, so among
  overlapping objects the nearest is returned; a covered pixel always picks something.
\<close>

theorem pick_nearest:
  "(A \<in> set registry \<and> depth_at A x y \<noteq> None \<and>
      (\<forall>h \<in> set registry. h \<noteq> A \<longrightarrow> depth_at h x y = None) \<longrightarrow>
      pick depth_at registry x y = Some A) \<and>
   ((\<forall>h \<in> set registry. depth_at h x y = None) \<longrightarrow> pick depth_at registry x y = None) \<and>
   (\<forall>h. pick depth_at registry x y = Some h \<longrightarrow>
      h \<in> set registry \<and>
      (\<exists>d. depth_at h x y = Some d \<and>
           (\<forall>h' \<in> set registry. \<forall>d'. depth_at h' x y = Some d' \<longrightarrow> d \<le> d'))) \<and>
   ((\<exists>h \<in> set registry. depth_at h x y \<noteq> None) \<longrightarrow> pick depth_at registry x y \<noteq> None)"
proof -
  have some: "h \<in> set registry \<and>
      (\<exists>d. depth_at h x y = Some d \<and>
           (\<forall>h' \<in> set registry. \<forall>d'. depth_at h' x y = Some d' \<longrightarrow> d \<le> d'))"
    if "pick depth_at registry x y = Some h" for h
  proof -
    from that obtain d where "pick_hit depth_at registry x y = Some (h, d)"
      by (auto simp: pick_def)
    from pick_hit_Some [OF this] show ?thesis by blast
  qed
  have none: "pick depth_at registry x y = None \<longleftrightarrow>
      (\<forall>h \<in> set registry. depth_at h x y = None)"
    by (simp add: pick_def pick_hit_None)
  have one: "pick depth_at registry x y = Some A"
    if "A \<in> set registry" "depth_at A x y \<noteq> None"
      "\<forall>h \<in> set registry. h \<noteq> A \<longrightarrow> depth_at h x y = None"
  proof -
    from that(1,2) none obtain h where h: "pick depth_at registry x y = Some h"
      by (cases "pick depth_at registry x y") auto
    from some [OF h] that(3) have "h = A" by auto
    with h show ?thesis by simp
  qed
  show ?thesis
  proof (intro conjI impI allI)
    assume "A \<in> set registry \<and> depth_at A x y \<noteq> None \<and>
      (\<forall>h \<in> set registry. h \<noteq> A \<longrightarrow> depth_at h x y = None)"
    then show "pick depth_at registry x y = Some A"
      using one by blast
  next
    assume "\<forall>h \<in> set registry. depth_at h x y = None"
    then show "pick depth_at registry x y = None"
      using none by simp
  next
    fix h
    assume p: "pick depth_at registry x y = Some h"
    from some [OF p] show "h \<in> set registry" by blast
    from some [OF p]
    show "\<exists>d. depth_at h x y = Some d \<and>
      (\<forall>h' \<in> set registry. \<forall>d'. depth_at h' x y = Some d' \<longrightarrow> d \<le> d')"
      by blast
  next
    assume "\<exists>h \<in> set registry. depth_at h x y \<noteq> None"
    then show "pick depth_at registry x y \<noteq> None"
      using none by simp
  qed
qed

theorem pick_nearest_witness:
  "pick (\<lambda>h x y. if h = (0::nat) \<and> x = 5 \<and> y = 5 then Some (7::nat)
                  else if h = 1 \<and> x = 5 then Some 3 else None) [0, 1] 5 5 = Some 1 \<and>
   pick (\<lambda>h x y. if h = (0::nat) \<and> x = 5 \<and> y = 5 then Some (7::nat)
                  else if h = 1 \<and> x = 5 then Some 3 else None) [0, 1] 5 6 = Some 1 \<and>
   pick (\<lambda>h x y. if h = (0::nat) \<and> x = 5 \<and> y = 5 then Some (7::nat)
                  else if h = 1 \<and> x = 5 then Some 3 else None) [0, 1] 9 9 = None"
proof -
  let ?D = "\<lambda>h x y. if h = (0::nat) \<and> x = (5::int) \<and> y = (5::int) then Some (7::nat)
                    else if h = 1 \<and> x = 5 then Some 3 else None"
  have a: "pick ?D [0, 1] 5 6 = Some 1"
    using pick_nearest [of 1 "[0, 1]" ?D 5 6] by simp
  have b: "pick ?D [0, 1] 9 9 = None"
    using pick_nearest [of 1 "[0, 1]" ?D 9 9] by simp
  have c: "pick ?D [0, 1] 5 5 = Some 1"
    by (simp add: pick_def)
  show ?thesis
    by (rule conjI [OF c conjI [OF a b]])
qed




text \<open>
  C10. For every truthy tool bar description \<^verbatim>\<open>init_toolbar\<close> does the same whatever the
  description holds: it creates the tool bar and looks up \<^verbatim>\<open>self.undo\<close>. On an object
  on which \<^verbatim>\<open>undo\<close> and \<^verbatim>\<open>redo\<close> resolve, the tool bar gets exactly the two actions
  Undo and Redo, bound to those attributes, with the icons of the module's icon directory;
  the class \<^verbatim>\<open>App\<close> defines neither, so on an \<^verbatim>\<open>App\<close> the lookup of \<^verbatim>\<open>undo\<close> raises
  \<^verbatim>\<open>AttributeError\<close> before any action is added, and a constructor call whose
  configuration has a truthy tool bar description never returns an app.
\<close>

theorem init_toolbar_ignores_items:
  "(truthy items \<longrightarrow>
      init_toolbar HERE (App_attributes with_menubar) items tr =
        (Inl (AttributeError ''undo''),
         tr @ [AddToolBar ''Tools'', SetMovable False, SetObjectName ''Tools'',
               SetIconSize 24 24])) \<and>
   (truthy items \<longrightarrow> map_of attrs ''undo'' = Some cu \<longrightarrow> map_of attrs ''redo'' = Some cr \<longrightarrow>
      init_toolbar HERE attrs items tr =
        (Inr (),
         tr @ [AddToolBar ''Tools'', SetMovable False, SetObjectName ''Tools'',
               SetIconSize 24 24,
               AddAction ToolBar
                 (Some (JStr (path_join (path_join HERE ''../icons'') ''undo-solid.svg'')))
                 (JStr ''Undo'') (SelfAttr ''undo''),
               AddAction ToolBar
                 (Some (JStr (path_join (path_join HERE ''../icons'') ''redo-solid.svg'')))
                 (JStr ''Redo'') (SelfAttr ''redo'')])) \<and>
   map_of (App_attributes with_menubar) ''undo'' = None \<and>
   map_of (App_attributes with_menubar) ''redo'' = None \<and>
   (loaded_config env = Inr config \<longrightarrow> dict_get config ''toolbar'' = Inr tb \<longrightarrow> truthy tb \<longrightarrow>
      (\<exists>e. fst (App_init env version w h viewmode ::
               (error + ('o, 'sel, 'key) app) \<times> surface_format list \<times> ui_call list) = Inl e))"
proof (intro conjI impI)
  assume "truthy items"
  then show "init_toolbar HERE (App_attributes with_menubar) items tr =
      (Inl (AttributeError ''undo''),
       tr @ [AddToolBar ''Tools'', SetMovable False, SetObjectName ''Tools'',
             SetIconSize 24 24])"
    by (rule init_toolbar_App)
next
  assume "truthy items" "map_of attrs ''undo'' = Some cu" "map_of attrs ''redo'' = Some cr"
  then show "init_toolbar HERE attrs items tr =
      (Inr (),
       tr @ [AddToolBar ''Tools'', SetMovable False, SetObjectName ''Tools'',
             SetIconSize 24 24,
             AddAction ToolBar
               (Some (JStr (path_join (path_join HERE ''../icons'') ''undo-solid.svg'')))
               (JStr ''Undo'') (SelfAttr ''undo''),
             AddAction ToolBar
               (Some (JStr (path_join (path_join HERE ''../icons'') ''redo-solid.svg'')))
               (JStr ''Redo'') (SelfAttr ''redo'')])"
    unfolding ICONS_def [symmetric] by (rule init_toolbar_with_attrs)
next
  show "map_of (App_attributes with_menubar) ''undo'' = None"
    by (rule undo_not_App_attribute)
  show "map_of (App_attributes with_menubar) ''redo'' = None"
    by (rule redo_not_App_attribute)
next
  assume "loaded_config env = Inr config" "dict_get config ''toolbar'' = Inr tb" "truthy tb"
  then show "\<exists>e. fst (App_init env version w h viewmode ::
      (error + ('o, 'sel, 'key) app) \<times> surface_format list \<times> ui_call list) = Inl e"
    by (rule App_init_toolbar_raises)
qed

theorem init_toolbar_ignores_items_witness:
  "init_toolbar ''/opt/compas_view2/app'' (App_attributes False)
     (JArr [JObj [(''type'', JStr ''separator'')]]) [] =
     (Inl (AttributeError ''undo''),
      [AddToolBar ''Tools'', SetMovable False, SetObjectName ''Tools'', SetIconSize 24 24]) \<and>
   init_toolbar ''/opt/compas_view2/app''
     (App_attributes False @ [(''undo'', True), (''redo'', True)]) (JBool True) [] =
     (Inr (),
      [AddToolBar ''Tools'', SetMovable False, SetObjectName ''Tools'', SetIconSize 24 24,
       AddAction ToolBar (Some (JStr ''/opt/compas_view2/app/../icons/undo-solid.svg''))
         (JStr ''Undo'') (SelfAttr ''undo''),
       AddAction ToolBar (Some (JStr ''/opt/compas_view2/app/../icons/redo-solid.svg''))
         (JStr ''Redo'') (SelfAttr ''redo'')]) \<and>
   (\<exists>e. fst (App_init
          (script_env\<lparr>loaded_config := Inr (JObj [(''toolbar'', JArr [JNull])])\<rparr>)
          ''120'' 800 500 ''shaded'' ::
        (error + (wrapper, ref list, ref) app) \<times> surface_format list \<times> ui_call list) = Inl e)"
proof -
  let ?env = "script_env\<lparr>loaded_config := Inr (JObj [(''toolbar'', JArr [JNull])])\<rparr>"
  have t: "truthy (JArr [JObj [(''type'', JStr ''separator'')]])" "truthy (JBool True)"
    "truthy (JArr [JNull])"
    by simp_all
  have c: "loaded_config ?env = Inr (JObj [(''toolbar'', JArr [JNull])])"
    "dict_get (JObj [(''toolbar'', JArr [JNull])]) ''toolbar'' = Inr (JArr [JNull])"
    by (simp_all add: script_env_def)
  have u: "map_of (App_attributes False @ [(''undo'', True), (''redo'', True)]) ''undo'' = Some True"
    "map_of (App_attributes False @ [(''undo'', True), (''redo'', True)]) ''redo'' = Some True"
    by (simp_all add: App_attributes_def App_methods_def)
  note inst = init_toolbar_ignores_items [where HERE = "''/opt/compas_view2/app''"
      and with_menubar = False and tr = "[]" and env = ?env
      and config = "JObj [(''toolbar'', JArr [JNull])]" and tb = "JArr [JNull]"
      and version = "''120''" and w = 800 and h = 500 and viewmode = "''shaded''"
      and ?'o = wrapper and ?'key = ref]
  from inst [where items = "JArr [JObj [(''type'', JStr ''separator'')]]"
      and attrs = "[]" and cu = True and cr = True, THEN conjunct1, rule_format, OF t(1)]
  have a: "init_toolbar ''/opt/compas_view2/app'' (App_attributes False)
     (JArr [JObj [(''type'', JStr ''separator'')]]) [] =
     (Inl (AttributeError ''undo''),
      [AddToolBar ''Tools'', SetMovable False, SetObjectName ''Tools'', SetIconSize 24 24])"
    by simp
  from inst [where items = "JBool True"
      and attrs = "App_attributes False @ [(''undo'', True), (''redo'', True)]"
      and cu = True and cr = True, THEN conjunct2, THEN conjunct1, rule_format, OF t(2) u]
  have b: "init_toolbar ''/opt/compas_view2/app''
     (App_attributes False @ [(''undo'', True), (''redo'', True)]) (JBool True) [] =
     (Inr (),
      [AddToolBar ''Tools'', SetMovable False, SetObjectName ''Tools'', SetIconSize 24 24,
       AddAction ToolBar (Some (JStr ''/opt/compas_view2/app/../icons/undo-solid.svg''))
         (JStr ''Undo'') (SelfAttr ''undo''),
       AddAction ToolBar (Some (JStr ''/opt/compas_view2/app/../icons/redo-solid.svg''))
         (JStr ''Redo'') (SelfAttr ''redo'')])"
    by (simp add: path_join_def)
  from inst [where items = JNull and attrs = "[]" and cu = True and cr = True,
      THEN conjunct2, THEN conjunct2, THEN conjunct2, THEN conjunct2, rule_format, OF c t(3)]
  have e: "\<exists>e. fst (App_init ?env ''120'' 800 500 ''shaded'' ::
        (error + (wrapper, ref list, ref) app) \<times> surface_format list \<times> ui_call list) = Inl e" .
  show ?thesis
    by (rule conjI [OF a conjI [OF b e]])
qed

end
